theory Spec2Isabelle
  imports Complex_Main
begin

section \<open>Beacon AI backend: a shallow embedding of the Express server\<close>

text \<open>
  The repository holds two variants of the server. The ESM variant has the
  recommendation engine, the e-mail notification and the \<^verbatim>\<open>/r\<close> redirect, and the
  definitions below follow it. The CommonJS variant \<^verbatim>\<open>server.js\<close> has the same
  \<^verbatim>\<open>normalizeUrl\<close>, \<^verbatim>\<open>hashString\<close> and e-mail checks, and a shorter \<^verbatim>\<open>saveLead\<close> and
  \<^verbatim>\<open>/api/analyze\<close>, which carry the suffix \<open>_cjs\<close>.

  Conventions. JavaScript strings are modelled as \<^typ>\<open>string\<close> and the text handled is
  taken to be ASCII. An optional string (\<^verbatim>\<open>undefined\<close>, \<^verbatim>\<open>null\<close> or a string) is a
  \<^typ>\<open>string option\<close>; a field of a JSON request body is a value of the type \<open>json\<close>.
  Everything the process does not compute itself (the URL parser,
  SHA-256, IEEE rounding, the DNS resolver, the Supabase tables, the Resend client) is a
  field of the record \<open>env\<close>, so that every theorem holds for every behaviour of these
  collaborators. A handler returns its HTTP response together with the list of calls it
  issued to the stores, the mail client and the error console, in program order.
\<close>

subsection \<open>Strings\<close>

definition is_space :: "char \<Rightarrow> bool" where
  \<comment> \<open>the ASCII part of the (identical) white space classes of \<^verbatim>\<open>trim\<close> and \<^verbatim>\<open>\s\<close>\<close>
  "is_space c \<longleftrightarrow> (of_char c :: nat) \<in> {9, 10, 11, 12, 13, 32}"

definition trim :: "string \<Rightarrow> string" where
  "trim s = rev (dropWhile is_space (rev (dropWhile is_space s)))"

definition to_lower :: "char \<Rightarrow> char" where
  "to_lower c = (let n = (of_char c :: nat) in if 65 \<le> n \<and> n \<le> 90 then char_of (n + 32) else c)"

definition toLowerCase :: "string \<Rightarrow> string" where
  "toLowerCase s = map to_lower s"

definition startsWith :: "string \<Rightarrow> string \<Rightarrow> bool" where
  "startsWith s p \<longleftrightarrow> take (length p) s = p"

definition has_http_scheme :: "string \<Rightarrow> bool" where
  \<comment> \<open>\<^verbatim>\<open>/^https?:\/\//i.test(s)\<close>\<close>
  "has_http_scheme s \<longleftrightarrow>
     startsWith (toLowerCase s) ''http://'' \<or> startsWith (toLowerCase s) ''https://''"

fun or_empty :: "string option \<Rightarrow> string" where
  \<comment> \<open>\<^verbatim>\<open>(v || "")\<close> for an optional string\<close>
  "or_empty None = []"
| "or_empty (Some s) = s"

fun or_null :: "string \<Rightarrow> string option" where
  \<comment> \<open>\<^verbatim>\<open>(s || null)\<close> for a string\<close>
  "or_null [] = None"
| "or_null s = Some s"


subsection \<open>Numbers\<close>

text \<open>
  A JavaScript number is \<open>NaN\<close>, an infinity, or a finite double, which is a rational.
  Every arithmetic operation on doubles rounds its exact result; the rounding is the
  parameter \<open>fl\<close> below. A value that may be missing (\<open>score\<close>) is \<^verbatim>\<open>undefined\<close>,
  \<^verbatim>\<open>null\<close> or a number.
\<close>

datatype jsnum = Fin rat | NaN | PosInf | NegInf

datatype jsval = Undefined | Null | Num jsnum

fun Number :: "jsval \<Rightarrow> jsnum" where
  "Number Undefined = NaN"
| "Number Null = Fin 0"
| "Number (Num n) = n"

fun isFinite :: "jsnum \<Rightarrow> bool" where
  "isFinite (Fin _) = True"
| "isFinite _ = False"

fun js_ge :: "jsnum \<Rightarrow> rat \<Rightarrow> bool" where
  \<comment> \<open>\<^verbatim>\<open>n >= k\<close> for a finite constant \<open>k\<close>; a comparison with \<open>NaN\<close> is false\<close>
  "js_ge (Fin x) k \<longleftrightarrow> x \<ge> k"
| "js_ge PosInf k \<longleftrightarrow> True"
| "js_ge _ k \<longleftrightarrow> False"

definition Math_round :: "rat \<Rightarrow> rat" where
  \<comment> \<open>\<^verbatim>\<open>Math.round\<close>: the nearest integer, a tie going up\<close>
  "Math_round x = of_int \<lfloor>x + 1 / 2\<rfloor>"

fun nullish :: "jsval \<Rightarrow> jsval" where
  \<comment> \<open>\<^verbatim>\<open>v ?? null\<close>\<close>
  "nullish Undefined = Null"
| "nullish v = v"

subsection \<open>Recommendation engine\<close>

fun calcDiscountedPrice :: "(rat \<Rightarrow> rat) \<Rightarrow> jsnum \<Rightarrow> jsnum \<Rightarrow> jsnum option" where
  \<comment> \<open>\<^verbatim>\<open>Math.round(p * (1 - d / 100) * 100) / 100\<close>, \<open>None\<close> for \<^verbatim>\<open>null\<close>\<close>
  "calcDiscountedPrice fl (Fin p) (Fin d) =
     Some (Fin (fl (Math_round (fl (fl (p * fl (1 - fl (d / 100))) * 100)) / 100)))"
| "calcDiscountedPrice fl _ _ = None"

datatype tier = Starter | Business | Premium

record package =
  pkg_name :: string
  pkg_price :: rat
  pkg_bullets :: "string list"

fun packages :: "tier \<Rightarrow> package" where
  "packages Starter = \<lparr>pkg_name = ''Starter Website'', pkg_price = 299,
     pkg_bullets = [''Clean, modern single page layout'',
                    ''Clear call to action and lead capture'',
                    ''Mobile friendly layout and basic performance cleanup'',
                    ''Perfect for simple service businesses'']\<rparr>"
| "packages Business = \<lparr>pkg_name = ''Business Website'', pkg_price = 499,
     pkg_bullets = [''Multi section or small multi page structure'',
                    ''Conversion focused layout with strong calls to action'',
                    ''Basic SEO setup and on page improvements'',
                    ''Ideal for most local businesses'']\<rparr>"
| "packages Premium = \<lparr>pkg_name = ''Premium Website'', pkg_price = 899,
     pkg_bullets = [''Full custom build with multiple pages and strategy'',
                    ''Stronger SEO foundation and content structure'',
                    ''Performance and accessibility improvements'',
                    ''Best for competitive niches and scaling'']\<rparr>"

record report =
  url_hash :: string
  domain :: string
  score :: jsval
  summary :: "string option"

record recommendation =
  tier :: tier
  packageName :: string
  price :: rat
  discountPercent :: rat
  discountedPrice :: "jsnum option"
  code :: string
  urgencyLine :: string
  bullets :: "string list"

definition choose_tier :: "jsnum \<Rightarrow> tier" where
  \<comment> \<open>the \<^verbatim>\<open>let tier = "Business"; if (Number.isFinite(score)) ...\<close> block\<close>
  "choose_tier s =
     (if isFinite s
      then (if js_ge s 85 then Starter else if js_ge s 60 then Business else Premium)
      else Business)"

definition report_score :: "report option \<Rightarrow> jsval" where
  \<comment> \<open>\<^verbatim>\<open>report?.score\<close>\<close>
  "report_score r = (case r of None \<Rightarrow> Undefined | Some x \<Rightarrow> score x)"

definition recommendPackageFromReport :: "(rat \<Rightarrow> rat) \<Rightarrow> report option \<Rightarrow> recommendation" where
  "recommendPackageFromReport fl rep =
     (let score = Number (report_score rep);
          discountPercent = 15;
          code = ''BEACON15'';
          urgencyLine = ''Book within 48 hours to claim the discount.'';
          tier = choose_tier score;
          selected = packages tier;
          discountedPrice = calcDiscountedPrice fl (Fin (pkg_price selected)) (Fin discountPercent)
      in \<lparr>tier = tier, packageName = pkg_name selected, price = pkg_price selected,
          discountPercent = discountPercent, discountedPrice = discountedPrice,
          code = code, urgencyLine = urgencyLine, bullets = pkg_bullets selected\<rparr>)"

subsection \<open>Identity normaliser and e-mail checks\<close>

text \<open>
  \<^verbatim>\<open>new URL(url).hostname\<close> is the platform's URL parser. It is the parameter
  \<open>hostname_of\<close>: \<open>None\<close> when the constructor throws, the host otherwise.
\<close>

definition with_scheme :: "string \<Rightarrow> string" where
  \<comment> \<open>\<^verbatim>\<open>if (!/^https?:\/\//i.test(url)) url = "https://" + url;\<close>\<close>
  "with_scheme url = (if \<not> has_http_scheme url then ''https://'' @ url else url)"

definition normalizeUrl :: "(string \<Rightarrow> string option) \<Rightarrow> string option \<Rightarrow> string option" where
  "normalizeUrl hostname_of input =
     (let url = trim (or_empty input) in
      if url = [] then None
      else
        let url = with_scheme url in
        case hostname_of url of
          None \<Rightarrow> None
        | Some hn \<Rightarrow>
            let host = toLowerCase hn;
                host = (if startsWith host ''www.'' then drop 4 host else host)
            in Some host)"

definition hashString :: "(string \<Rightarrow> string) \<Rightarrow> string \<Rightarrow> string" where
  \<comment> \<open>\<^verbatim>\<open>crypto.createHash("sha256").update(s).digest("hex")\<close>, the digest a parameter\<close>
  "hashString sha256_hex s = sha256_hex s"

definition no_space_or_at :: "char \<Rightarrow> bool" where
  \<comment> \<open>the character class \<^verbatim>\<open>[^\s@]\<close>\<close>
  "no_space_or_at c \<longleftrightarrow> \<not> is_space c \<and> c \<noteq> CHR ''@''"

definition email_regex :: "string \<Rightarrow> bool" where
  \<comment> \<open>\<^verbatim>\<open>/^[^\s@]+@[^\s@]+\.[^\s@]+$/\<close>: one \<^verbatim>\<open>@\<close>, a non-empty local part, and a
      domain part with a dot that is neither its first nor its last character\<close>
  "email_regex s \<longleftrightarrow>
     (let local = takeWhile (\<lambda>c. c \<noteq> CHR ''@'') s;
          rest = dropWhile (\<lambda>c. c \<noteq> CHR ''@'') s
      in local \<noteq> [] \<and> list_all no_space_or_at local \<and> rest \<noteq> [] \<and>
         list_all no_space_or_at (tl rest) \<and> CHR ''.'' \<in> set (butlast (tl (tl rest))))"

definition isValidEmailFormat :: "string \<Rightarrow> bool" where
  "isValidEmailFormat v = email_regex (trim v)"

definition split_second :: "char \<Rightarrow> string \<Rightarrow> string option" where
  \<comment> \<open>\<^verbatim>\<open>s.split(sep)[1]\<close>, \<open>None\<close> for \<^verbatim>\<open>undefined\<close>\<close>
  "split_second sep s =
     (case dropWhile (\<lambda>c. c \<noteq> sep) s of
        [] \<Rightarrow> None
      | _ # rest \<Rightarrow> Some (takeWhile (\<lambda>c. c \<noteq> sep) rest))"

definition emailHasMx :: "(string \<Rightarrow> (string \<times> nat) list option) \<Rightarrow> string \<Rightarrow> bool" where
  \<comment> \<open>\<open>resolveMx d\<close> is \<open>None\<close> when the resolver rejects, the records otherwise\<close>
  "emailHasMx resolveMx v =
     (let email = toLowerCase (trim v) in
      case split_second (CHR ''@'') email of
        None \<Rightarrow> False
      | Some d \<Rightarrow>
          if d = [] then False
          else (case resolveMx d of None \<Rightarrow> False | Some mx \<Rightarrow> mx \<noteq> []))"

subsection \<open>Values of a request body\<close>

text \<open>
  \<^verbatim>\<open>express.json()\<close> hands the handler whatever JSON object was posted, so a field of the
  body is missing, \<^verbatim>\<open>null\<close>, a boolean, a string, or a number, an array or an object. The
  handlers only ever test such a value for truthiness, convert it with \<^verbatim>\<open>String\<close>, compare
  it with \<^verbatim>\<open>true\<close>, or call the string method \<^verbatim>\<open>trim\<close> on it, which throws a
  \<^verbatim>\<open>TypeError\<close> unless it is a string. A number, array or object is therefore given by its
  truthiness and by the string that \<^verbatim>\<open>String\<close> returns for it (\<open>JOther\<close>).
\<close>

datatype json = JUndefined | JNull | JBool bool | JString string | JOther bool string

fun js_truthy :: "json \<Rightarrow> bool" where
  "js_truthy JUndefined = False"
| "js_truthy JNull = False"
| "js_truthy (JBool b) = b"
| "js_truthy (JString s) = (s \<noteq> [])"
| "js_truthy (JOther t _) = t"

definition js_or :: "json \<Rightarrow> json \<Rightarrow> json" where
  \<comment> \<open>\<^verbatim>\<open>a || b\<close>\<close>
  "js_or a b = (if js_truthy a then a else b)"

fun String_of :: "json \<Rightarrow> string" where
  \<comment> \<open>\<^verbatim>\<open>String(v)\<close>\<close>
  "String_of JUndefined = ''undefined''"
| "String_of JNull = ''null''"
| "String_of (JBool b) = (if b then ''true'' else ''false'')"
| "String_of (JString s) = s"
| "String_of (JOther _ s) = s"

definition or_empty_js :: "json \<Rightarrow> string option" where
  \<comment> \<open>\<^verbatim>\<open>(v || "")\<close> as the receiver of \<^verbatim>\<open>.trim()\<close>: the string, or \<open>None\<close> when the value is
      truthy and not a string, where the call throws a \<^verbatim>\<open>TypeError\<close>\<close>
  "or_empty_js v =
     (if \<not> js_truthy v then Some []
      else case v of JString s \<Rightarrow> Some s | _ \<Rightarrow> None)"

subsection \<open>Collaborators and rows\<close>

datatype exn = Exn (message: string) (as_string: string)

definition err_text :: "exn \<Rightarrow> string" where
  \<comment> \<open>\<^verbatim>\<open>err?.message || String(err)\<close>\<close>
  "err_text e = (if message e \<noteq> [] then message e else as_string e)"

text \<open>
  A Supabase call resolves to \<^verbatim>\<open>{ data, error: null }\<close> or to \<^verbatim>\<open>{ error }\<close>, or the
  awaited promise rejects.
\<close>

datatype 'a outcome = Data 'a | Error string | Throws exn

record lead =
  lead_email :: string
  lead_business_name :: string
  lead_contact_name :: "string option"
  lead_domain :: string
  lead_url_hash :: string
  lead_score :: jsval
  lead_summary :: "string option"
  recommended_tier :: "tier option"
  recommended_package_name :: "string option"
  recommended_price :: "rat option"
  recommended_discount_percent :: "rat option"
  recommended_discounted_price :: "jsnum option"
  discount_code :: "string option"
  discount_deadline_hours :: nat

record lead_cjs =
  cjs_email :: string
  cjs_business_name :: string
  cjs_contact_name :: "string option"
  cjs_domain :: string
  cjs_url_hash :: string
  cjs_score :: jsval
  cjs_summary :: "string option"

record meta =
  user_agent :: "string option"
  referer :: "string option"

record event =
  event_type :: string
  ev_email :: "string option"
  ev_url_hash :: "string option"
  ev_domain :: "string option"
  ev_recommended_tier :: "string option"
  ev_meta :: "meta option"

text \<open>
  The message handed to \<^verbatim>\<open>resend.emails.send\<close>. Its \<^verbatim>\<open>text\<close> and \<^verbatim>\<open>html\<close> bodies are
  rendered by \<^verbatim>\<open>buildEmailText\<close> and \<^verbatim>\<open>buildEmailHtml\<close> from the three last fields,
  which stand for them here.
\<close>

record mail =
  mail_from :: string
  mail_to :: string
  mail_bcc :: "string list option"
  mail_reply_to :: string
  mail_subject :: string
  mail_report :: report
  mail_business :: string
  mail_website :: string

record env =
  hostname_of :: "string \<Rightarrow> string option"
  sha256_hex :: "string \<Rightarrow> string"
  fl :: "rat \<Rightarrow> rat"
  resolveMx :: "string \<Rightarrow> (string \<times> nat) list option"
  select_report :: "string \<Rightarrow> report option outcome"
  insert_report :: "report \<Rightarrow> unit outcome"
  insert_lead :: "lead \<Rightarrow> unit outcome"
  insert_lead_cjs :: "lead_cjs \<Rightarrow> unit outcome"
  insert_event :: "event \<Rightarrow> unit outcome"
  resend_configured :: bool
  EMAIL_FROM :: string
  INTERNAL_BCC_EMAIL :: string
  backend_url_parses :: bool
  resend_send :: "mail \<Rightarrow> exn option"
  type_error :: exn

text \<open>
  \<open>select_report h\<close> is \<^verbatim>\<open>from(REPORTS_TABLE).select("*").eq("url_hash", h).maybeSingle()\<close>;
  \<open>resend_configured\<close> says that \<^verbatim>\<open>RESEND_API_KEY\<close> is set; \<open>backend_url_parses\<close> says
  that \<^verbatim>\<open>new URL("/r", PUBLIC_BACKEND_URL)\<close> in \<^verbatim>\<open>buildTrackedUrl\<close> does not throw;
  \<open>resend_send m\<close> is \<open>None\<close> when the send resolves and the error when it rejects;
  \<open>type_error\<close> is the \<^verbatim>\<open>TypeError\<close> the engine throws when \<^verbatim>\<open>trim\<close> is called on a value
  that is not a string.

  The calls a handler issues, in program order. \<open>Console\<close> is the error stream
  (\<^verbatim>\<open>console.error\<close> and \<^verbatim>\<open>console.warn\<close>); \<^verbatim>\<open>console.log\<close> is left out.
\<close>

datatype call =
    SelectReport string
  | InsertReport report
  | InsertLead lead
  | InsertLeadCjs lead_cjs
  | InsertEvent event
  | SendMail mail
  | Console string

datatype body_json = Failure string | Success bool report

datatype response = Json nat body_json | Text nat string | Redirect nat string

subsection \<open>Side channels: lead, mail, event\<close>

definition lead_row ::
  "string \<Rightarrow> json \<Rightarrow> json \<Rightarrow> string \<Rightarrow> string \<Rightarrow> jsval \<Rightarrow>
   string option \<Rightarrow> recommendation option \<Rightarrow> lead option" where
  \<comment> \<open>the object \<^verbatim>\<open>saveLead\<close> passes to \<^verbatim>\<open>insert\<close>; \<open>None\<close> when building it throws,
      \<^verbatim>\<open>businessName\<close> or \<^verbatim>\<open>name\<close> being truthy and not a string\<close>
  "lead_row email businessName name domain' urlHash score' summary' recommendation =
     (case (or_empty_js businessName, or_empty_js name) of
        (Some bn, Some nm) \<Rightarrow>
          Some \<lparr>lead_email = email,
                lead_business_name = (let b = trim bn in if b = [] then ''Unknown Business'' else b),
                lead_contact_name = or_null (trim nm),
                lead_domain = domain',
                lead_url_hash = urlHash,
                lead_score = nullish score',
                lead_summary = summary',
                recommended_tier = map_option tier recommendation,
                recommended_package_name = map_option packageName recommendation,
                recommended_price = map_option price recommendation,
                recommended_discount_percent = map_option discountPercent recommendation,
                recommended_discounted_price = Option.bind recommendation discountedPrice,
                discount_code = map_option code recommendation,
                discount_deadline_hours = 48\<rparr>
      | _ \<Rightarrow> None)"

definition saveLead ::
  "env \<Rightarrow> string \<Rightarrow> json \<Rightarrow> json \<Rightarrow> string \<Rightarrow> string \<Rightarrow> jsval \<Rightarrow>
   string option \<Rightarrow> recommendation option \<Rightarrow> call list" where
  \<comment> \<open>every failure inside the \<^verbatim>\<open>try\<close> ends in the error console, none leaves the function\<close>
  "saveLead E email businessName name domain' urlHash score' summary' recommendation =
     (case lead_row email businessName name domain' urlHash score' summary' recommendation of
        None \<Rightarrow> [Console (''Lead save exception: '' @ err_text (type_error E))]
      | Some row \<Rightarrow>
          (case insert_lead E row of
             Data _ \<Rightarrow> [InsertLead row]
           | Error m \<Rightarrow> [InsertLead row, Console (''Lead save failed: '' @ m)]
           | Throws e \<Rightarrow> [InsertLead row, Console (''Lead save exception: '' @ err_text e)]))"

definition invalid_url :: exn where
  "invalid_url = Exn ''Invalid URL'' ''TypeError: Invalid URL''"

definition sendBeaconReportEmail ::
  "env \<Rightarrow> string \<Rightarrow> string \<Rightarrow> report \<Rightarrow> string \<Rightarrow> string \<Rightarrow> exn option \<times> call list" where
  \<comment> \<open>the first component is the exception that escapes, if any\<close>
  "sendBeaconReportEmail E to subject report businessNameValue websiteValue =
     (if to = [] then (None, [])
      else if \<not> resend_configured E \<or> EMAIL_FROM E = []
      then (None, [Console ''Resend not configured. Skipping email send.''])
      else if \<not> backend_url_parses E then (Some invalid_url, [])
      else
        let m = \<lparr>mail_from = EMAIL_FROM E, mail_to = to,
                 mail_bcc = (if INTERNAL_BCC_EMAIL E \<noteq> [] then Some [INTERNAL_BCC_EMAIL E] else None),
                 mail_reply_to = ''support@shorelinedevco.com'',
                 mail_subject = subject, mail_report = report,
                 mail_business = businessNameValue, mail_website = websiteValue\<rparr>
        in case resend_send E m of
             None \<Rightarrow> (None, [SendMail m])
           | Some e \<Rightarrow> (None, [SendMail m, Console (''Email send failed: '' @ err_text e)]))"




subsection \<open>Routes\<close>



text \<open>
  The body of \<^verbatim>\<open>POST /api/analyze\<close>, with the fields the handler destructures.
\<close>

record body =
  name :: json
  email :: json
  website :: json
  businessName :: json
  business_name :: json
  refresh :: json

definition caught :: "exn \<Rightarrow> call list \<Rightarrow> response \<times> call list" where
  \<comment> \<open>the \<^verbatim>\<open>catch (err)\<close> block of \<^verbatim>\<open>/api/analyze\<close>, after the calls already issued\<close>
  "caught e calls =
     (Json 500 (Failure (err_text e)), calls @ [Console (''ANALYZE ERROR: '' @ as_string e)])"

definition on_cache_hit ::
  "env \<Rightarrow> body \<Rightarrow> string \<Rightarrow> string \<Rightarrow> string \<Rightarrow> string \<Rightarrow> report \<Rightarrow> call list \<Rightarrow>
   response \<times> call list" where
  \<comment> \<open>the block \<^verbatim>\<open>if (cachedReport) { ... }\<close>\<close>
  "on_cache_hit E b finalBusinessName cleanEmail normalized urlHash cachedReport calls =
     (let recommendation = recommendPackageFromReport (fl E) (Some cachedReport);
          calls = calls @ saveLead E cleanEmail (JString finalBusinessName) (name b) normalized urlHash
                            (score cachedReport) (summary cachedReport) (Some recommendation)
      in if refresh b = JBool True
         then
           (case sendBeaconReportEmail E cleanEmail ''Your Beacon AI website report'' cachedReport
                   (if finalBusinessName \<noteq> [] then finalBusinessName else normalized)
                   (String_of (website b)) of
              (Some e, sent) \<Rightarrow> caught e (calls @ sent)
            | (None, sent) \<Rightarrow> (Json 200 (Success True cachedReport), calls @ sent))
         else (Json 200 (Success True cachedReport), calls))"

definition on_cache_miss ::
  "env \<Rightarrow> body \<Rightarrow> string \<Rightarrow> string \<Rightarrow> string \<Rightarrow> string \<Rightarrow> call list \<Rightarrow>
   response \<times> call list" where
  \<comment> \<open>the code after \<^verbatim>\<open>// No cache\<close>\<close>
  "on_cache_miss E b finalBusinessName cleanEmail normalized urlHash calls =
     (let report = \<lparr>url_hash = urlHash, domain = normalized, score = Num (Fin 65),
                    summary = Some ''Solid foundation, but performance, SEO, and conversion clarity can be improved.''\<rparr>;
          calls = calls @ [InsertReport report]
      in case insert_report E report of
           Throws e \<Rightarrow> caught e calls
         | Error m \<Rightarrow> (Json 500 (Failure m), calls)
         | Data _ \<Rightarrow>
             let recommendation = recommendPackageFromReport (fl E) (Some report);
                 calls = calls @ saveLead E cleanEmail (JString finalBusinessName) (name b) normalized
                                   urlHash (score report) (summary report) (Some recommendation)
             in (case sendBeaconReportEmail E cleanEmail ''Your Beacon AI website report'' report
                        (if finalBusinessName \<noteq> [] then finalBusinessName else normalized)
                        (String_of (website b)) of
                   (Some e, sent) \<Rightarrow> caught e (calls @ sent)
                 | (None, sent) \<Rightarrow> (Json 200 (Success False report), calls @ sent)))"

definition analyze :: "env \<Rightarrow> body \<Rightarrow> response \<times> call list" where
  \<comment> \<open>\<^verbatim>\<open>app.post("/api/analyze", ...)\<close>. The two \<open>None\<close> branches are the \<^verbatim>\<open>TypeError\<close> of
      \<^verbatim>\<open>(businessName || business_name || "").trim()\<close> and of \<^verbatim>\<open>(input || "").trim()\<close>,
      the first statement of \<^verbatim>\<open>normalizeUrl\<close>, both caught by the handler\<close>
  "analyze E b =
     (case or_empty_js (js_or (businessName b) (business_name b)) of
        None \<Rightarrow> caught (type_error E) []
      | Some bn \<Rightarrow>
          let finalBusinessName = trim bn in
          if \<not> js_truthy (email b) \<or> \<not> js_truthy (website b)
          then (Json 400 (Failure ''Website and email are required.''), [])
          else
            let cleanEmail = toLowerCase (trim (String_of (email b))) in
            if \<not> isValidEmailFormat cleanEmail
            then (Json 400 (Failure ''Invalid email. Please enter a real email address.''), [])
            else if \<not> emailHasMx (resolveMx E) cleanEmail
            then (Json 400 (Failure ''That email domain cannot receive email. Please use a real email.''), [])
            else
              (case or_empty_js (website b) of
                 None \<Rightarrow> caught (type_error E) []
               | Some w \<Rightarrow>
                   (case normalizeUrl (hostname_of E) (Some w) of
                      None \<Rightarrow> (Json 400 (Failure ''Invalid website URL.''), [])
                    | Some normalized \<Rightarrow>
                        if normalized = [] then (Json 400 (Failure ''Invalid website URL.''), [])
                        else
                          let urlHash = hashString (sha256_hex E) normalized;
                              calls = [SelectReport urlHash]
                          in (case select_report E urlHash of
                                Throws e \<Rightarrow> caught e calls
                              | Error m \<Rightarrow> (Json 500 (Failure m), calls)
                              | Data (Some cachedReport) \<Rightarrow>
                                  on_cache_hit E b finalBusinessName cleanEmail normalized urlHash
                                    cachedReport calls
                              | Data None \<Rightarrow>
                                  on_cache_miss E b finalBusinessName cleanEmail normalized urlHash
                                    calls))))"

subsection \<open>The CommonJS variant\<close>

definition lead_row_cjs ::
  "string \<Rightarrow> json \<Rightarrow> json \<Rightarrow> string \<Rightarrow> string \<Rightarrow> jsval \<Rightarrow>
   string option \<Rightarrow> lead_cjs option" where
  "lead_row_cjs email' businessName' name' domain' urlHash score' summary' =
     (case (or_empty_js businessName', or_empty_js name') of
        (Some bn, Some nm) \<Rightarrow>
          Some \<lparr>cjs_email = email',
                cjs_business_name = (let b = trim bn in if b = [] then ''Unknown Business'' else b),
                cjs_contact_name = or_null (trim nm),
                cjs_domain = domain',
                cjs_url_hash = urlHash,
                cjs_score = nullish score',
                cjs_summary = summary'\<rparr>
      | _ \<Rightarrow> None)"

definition saveLead_cjs ::
  "env \<Rightarrow> string \<Rightarrow> json \<Rightarrow> json \<Rightarrow> string \<Rightarrow> string \<Rightarrow> jsval \<Rightarrow>
   string option \<Rightarrow> call list" where
  "saveLead_cjs E email' businessName' name' domain' urlHash score' summary' =
     (case lead_row_cjs email' businessName' name' domain' urlHash score' summary' of
        None \<Rightarrow> [Console (''Lead save exception: '' @ message (type_error E))]
      | Some row \<Rightarrow>
          (case insert_lead_cjs E row of
             Data _ \<Rightarrow> [InsertLeadCjs row]
           | Error m \<Rightarrow> [InsertLeadCjs row, Console (''Lead save failed: '' @ m)]
           | Throws e \<Rightarrow> [InsertLeadCjs row, Console (''Lead save exception: '' @ message e)]))"

definition caught_cjs :: "exn \<Rightarrow> call list \<Rightarrow> response \<times> call list" where
  \<comment> \<open>\<^verbatim>\<open>catch (err) { return res.status(500).json({ ok: false, error: err.message }); }\<close>\<close>
  "caught_cjs e calls = (Json 500 (Failure (message e)), calls)"

definition analyze_cjs :: "env \<Rightarrow> body \<Rightarrow> response \<times> call list" where
  \<comment> \<open>\<^verbatim>\<open>app.post("/api/analyze", ...)\<close> of \<^verbatim>\<open>server.js\<close>; \<open>refresh\<close> is not read, and the
      business name is not trimmed before \<^verbatim>\<open>saveLead\<close>\<close>
  "analyze_cjs E b =
     (let finalBusinessName = js_or (businessName b) (business_name b) in
      if \<not> js_truthy (email b) \<or> \<not> js_truthy (website b)
      then (Json 400 (Failure ''Website and email are required.''), [])
      else
        let cleanEmail = toLowerCase (trim (String_of (email b))) in
        if \<not> isValidEmailFormat cleanEmail
        then (Json 400 (Failure ''Invalid email. Please enter a real email address.''), [])
        else if \<not> emailHasMx (resolveMx E) cleanEmail
        then (Json 400 (Failure ''That email domain cannot receive email. Please use a real email.''), [])
        else
          (case or_empty_js (website b) of
             None \<Rightarrow> caught_cjs (type_error E) []
           | Some w \<Rightarrow>
               (case normalizeUrl (hostname_of E) (Some w) of
                  None \<Rightarrow> (Json 400 (Failure ''Invalid website URL.''), [])
                | Some normalized \<Rightarrow>
                    if normalized = [] then (Json 400 (Failure ''Invalid website URL.''), [])
                    else
                      let urlHash = hashString (sha256_hex E) normalized;
                          calls = [SelectReport urlHash]
                      in (case select_report E urlHash of
                            Throws e \<Rightarrow> caught_cjs e calls
                          | Error m \<Rightarrow> (Json 500 (Failure m), calls)
                          | Data (Some cachedReport) \<Rightarrow>
                              (Json 200 (Success True cachedReport),
                               calls @ saveLead_cjs E cleanEmail finalBusinessName (name b) normalized
                                         urlHash (score cachedReport) (summary cachedReport))
                          | Data None \<Rightarrow>
                              let report = \<lparr>url_hash = urlHash, domain = normalized, score = Num (Fin 65),
                                    summary = Some ''Solid foundation, but performance, SEO, and conversion clarity can be improved.''\<rparr>;
                                  calls = calls @ [InsertReport report]
                              in (case insert_report E report of
                                    Throws e \<Rightarrow> caught_cjs e calls
                                  | Error m \<Rightarrow> (Json 500 (Failure m), calls)
                                  | Data _ \<Rightarrow>
                                      (Json 200 (Success False report),
                                       calls @ saveLead_cjs E cleanEmail finalBusinessName (name b)
                                                 normalized urlHash (score report) (summary report)))))))"

subsection \<open>Vocabulary of the properties\<close>

definition round_half_up_2 :: "rat \<Rightarrow> rat" where
  \<comment> \<open>rounding to two decimal places, a tie going up, as the specification words it\<close>
  "round_half_up_2 x = of_int \<lfloor>x * 100 + 1 / 2\<rfloor> / 100"

definition clean_email :: "body \<Rightarrow> string" where
  \<comment> \<open>the handler's \<^verbatim>\<open>cleanEmail\<close>\<close>
  "clean_email b = toLowerCase (trim (String_of (email b)))"

definition final_business_name :: "body \<Rightarrow> string" where
  \<comment> \<open>the handler's \<^verbatim>\<open>finalBusinessName\<close>, when computing it does not throw\<close>
  "final_business_name b =
     (case or_empty_js (js_or (businessName b) (business_name b)) of
        Some bn \<Rightarrow> trim bn
      | None \<Rightarrow> [])"

definition passes_validation :: "env \<Rightarrow> body \<Rightarrow> string \<Rightarrow> bool" where
  \<comment> \<open>the request reaches the cache lookup of \<^verbatim>\<open>/api/analyze\<close>, with the normalised domain
      \<open>n\<close>: no early return is taken and neither call of \<^verbatim>\<open>trim\<close> throws\<close>
  "passes_validation E b n \<longleftrightarrow>
     or_empty_js (js_or (businessName b) (business_name b)) \<noteq> None \<and>
     js_truthy (email b) \<and> js_truthy (website b) \<and> isValidEmailFormat (clean_email b) \<and>
     emailHasMx (resolveMx E) (clean_email b) \<and>
     (case website b of
        JString w \<Rightarrow> normalizeUrl (hostname_of E) (Some w) = Some n
      | _ \<Rightarrow> False) \<and>
     n \<noteq> []"

definition fresh_report :: "env \<Rightarrow> string \<Rightarrow> report" where
  \<comment> \<open>the report built on a cache miss for the domain \<open>n\<close>\<close>
  "fresh_report E n =
     \<lparr>url_hash = hashString (sha256_hex E) n, domain = n, score = Num (Fin 65),
      summary = Some ''Solid foundation, but performance, SEO, and conversion clarity can be improved.''\<rparr>"

definition mail_can_be_built :: "env \<Rightarrow> bool" where
  \<comment> \<open>composing the message does not throw: the mail client is not set up (the send is
      skipped), or the public base URL of the tracked link parses\<close>
  "mail_can_be_built E \<longleftrightarrow> \<not> resend_configured E \<or> EMAIL_FROM E = [] \<or> backend_url_parses E"

fun is_insert :: "call \<Rightarrow> bool" where
  "is_insert (InsertReport _) = True"
| "is_insert (InsertLead _) = True"
| "is_insert (InsertLeadCjs _) = True"
| "is_insert (InsertEvent _) = True"
| "is_insert _ = False"

fun is_console :: "call \<Rightarrow> bool" where
  "is_console (Console _) = True"
| "is_console _ = False"

definition without_console :: "call list \<Rightarrow> call list" where
  "without_console calls = filter (\<lambda>c. \<not> is_console c) calls"

subsection \<open>Sample collaborators and requests\<close>

text \<open>
  A small host parser for evaluating concrete inputs: for \<^verbatim>\<open>http(s)://host\<close> followed by
  nothing or by a path, query or fragment, where \<open>host\<close> is made of letters, digits,
  hyphens and dots, it returns the host in lower case, as the platform parser does on
  the inputs used below; it rejects everything else.
\<close>

definition plain_hostname :: "string \<Rightarrow> string option" where
  "plain_hostname s =
     (let l = toLowerCase s;
          rest = (if startsWith l ''https://'' then drop 8 l
                  else if startsWith l ''http://'' then drop 7 l else []);
          host = takeWhile (\<lambda>c. c \<notin> set ''/?#'') rest
      in if host \<noteq> [] \<and> list_all (\<lambda>c. c \<in> set ''abcdefghijklmnopqrstuvwxyz0123456789-.'') host
         then Some host else None)"

definition sample_env :: env where
  \<comment> \<open>every collaborator succeeds; the Reports table is empty; \<^verbatim>\<open>example.com\<close> has
      a mail exchanger; arithmetic is exact; a tagged copy of the input stands for its digest;
      a short text stands for the message of the engine's \<^verbatim>\<open>TypeError\<close>\<close>
  "sample_env =
     \<lparr>hostname_of = plain_hostname, sha256_hex = (\<lambda>s. ''sha256:'' @ s), fl = (\<lambda>x. x),
      resolveMx = (\<lambda>d. if d = ''example.com'' then Some [(''mx.example.com'', 10)] else None),
      select_report = (\<lambda>h. Data None), insert_report = (\<lambda>r. Data ()),
      insert_lead = (\<lambda>l. Data ()), insert_lead_cjs = (\<lambda>l. Data ()),
      insert_event = (\<lambda>e. Data ()),
      resend_configured = True, EMAIL_FROM = ''Beacon AI <support@shorelinedevco.com>'',
      INTERNAL_BCC_EMAIL = [], backend_url_parses = True, resend_send = (\<lambda>m. None),
      type_error = Exn ''value.trim is not a function'' ''TypeError: value.trim is not a function''\<rparr>"

definition sample_body :: body where
  "sample_body =
     \<lparr>name = JString ''Ann'', email = JString ''Ann@Example.com'',
      website = JString ''www.Shop.example.org/path'',
      businessName = JString ''Shop'', business_name = JUndefined, refresh = JBool True\<rparr>"

definition stored_report :: report where
  "stored_report =
     \<lparr>url_hash = ''sha256:shop.example.org'', domain = ''shop.example.org'', score = Num (Fin 90),
      summary = Some ''Fast and clear.''\<rparr>"

definition unreachable_body :: body where
  \<comment> \<open>a well-formed address whose domain has no mail exchanger\<close>
  "unreachable_body = sample_body\<lparr>email := JString ''bob@nowhere.invalid''\<rparr>"

definition numeric_name_body :: body where
  \<comment> \<open>the same request with \<^verbatim>\<open>"businessName": 5\<close>\<close>
  "numeric_name_body = unreachable_body\<lparr>businessName := JOther True ''5''\<rparr>"

definition table_select :: "report list \<Rightarrow> string \<Rightarrow> report option outcome" where
  \<comment> \<open>Modelled from the spec: the Reports table, whose schema is not in the repository,
      read by \<^verbatim>\<open>select("*").eq("url_hash", h).maybeSingle()\<close>: no row gives \<^verbatim>\<open>null\<close>, one
      row gives the row, several rows give an error\<close>
  "table_select rows h =
     (case filter (\<lambda>r. url_hash r = h) rows of
        [] \<Rightarrow> Data None
      | [r] \<Rightarrow> Data (Some r)
      | _ \<Rightarrow> Error ''JSON object requested, multiple (or no) rows returned'')"

definition table_insert :: "report list \<Rightarrow> report \<Rightarrow> unit outcome" where
  \<comment> \<open>Modelled from the spec: the Reports table is keyed by the fingerprint and the
      storage layer enforces its uniqueness, so the insert of a second row with a stored
      fingerprint returns an error\<close>
  "table_insert rows r =
     (if url_hash r \<in> set (map url_hash rows)
      then Error ''duplicate key value violates unique constraint''
      else Data ())"

definition conflict_env :: env where
  \<comment> \<open>a lost race: the lookup reads the empty table, a concurrent request for the same
      site inserts its row, and then the insert of this request meets that row\<close>
  "conflict_env =
     sample_env\<lparr>select_report := table_select [],
                 insert_report := table_insert [fresh_report sample_env ''shop.example.org'']\<rparr>"

definition cached_env :: env where
  \<comment> \<open>the Reports table holds \<open>stored_report\<close>\<close>
  "cached_env = sample_env\<lparr>select_report := table_select [stored_report]\<rparr>"

definition unparsable_base_env :: env where
  \<comment> \<open>the Reports table holds \<open>stored_report\<close>, the mail client is set up, and
      \<^verbatim>\<open>PUBLIC_BACKEND_URL\<close> is a host name without a scheme\<close>
  "unparsable_base_env = cached_env\<lparr>backend_url_parses := False\<rparr>"




section \<open>Properties\<close>

subsection \<open>Recommendation engine\<close>

lemma tier_of_score:
  "tier (recommendPackageFromReport rnd rep) = choose_tier (Number (report_score rep))"
  by (simp add: recommendPackageFromReport_def Let_def)

lemma tier_of_finite_score:
  "tier (recommendPackageFromReport rnd (Some (r\<lparr>score := Num (Fin s)\<rparr>))) =
     (if s \<ge> 85 then Starter else if s \<ge> 60 then Business else Premium)"
  by (simp add: tier_of_score report_score_def choose_tier_def)

lemma tier_of_missing_score:
  "tier (recommendPackageFromReport rnd None) = Business"
  "tier (recommendPackageFromReport rnd (Some (r\<lparr>score := Undefined\<rparr>))) = Business"
  "tier (recommendPackageFromReport rnd (Some (r\<lparr>score := Num NaN\<rparr>))) = Business"
  "tier (recommendPackageFromReport rnd (Some (r\<lparr>score := Num PosInf\<rparr>))) = Business"
  "tier (recommendPackageFromReport rnd (Some (r\<lparr>score := Num NegInf\<rparr>))) = Business"
  by (simp_all add: tier_of_score report_score_def choose_tier_def)

text \<open>
  C2. The tier is Starter from 85 up, Business from 60 to below 85, Premium below 60, and
  Business when the score is missing or not finite (\<open>tier_of_finite_score\<close>,
  \<open>tier_of_missing_score\<close>). The engine reads the score with \<^verbatim>\<open>Number(report?.score)\<close>,
  and \<^verbatim>\<open>Number(null)\<close> is \<open>0\<close>: a stored report whose score is \<^verbatim>\<open>null\<close> gets the
  Premium tier, not the default one.
\<close>

theorem null_score_recommends_premium:
  "tier (recommendPackageFromReport rnd
      (Some \<lparr>url_hash = h, domain = d, score = Null, summary = None\<rparr>)) = Premium"
  by (simp add: tier_of_score report_score_def choose_tier_def)

text \<open>
  Double arithmetic: each operation returns its exact result rounded to the nearest
  double, with a relative error of at most \<open>1 / 2 ^ 53\<close> for results between \<open>1/10\<close> and
  \<open>100000\<close> (far inside the normal range). Under that bound alone the argument of
  \<^verbatim>\<open>Math.round\<close> stays within \<open>1/2\<close> of \<open>85 p\<close> for the three catalogue prices.
\<close>

lemma rounding_step:
  fixes rnd :: "rat \<Rightarrow> rat"
  assumes rnd: "\<forall>x. 1 / 10 \<le> x \<and> x \<le> 100000 \<longrightarrow> \<bar>rnd x - x\<bar> \<le> x / 2 ^ 53"
    and d: "\<bar>x - c\<bar> \<le> \<delta>" and lo: "1 / 10 \<le> c - \<delta>" and m: "c + \<delta> \<le> M"
    and hi: "M \<le> 100000"
  shows "\<bar>rnd x - c\<bar> \<le> \<delta> + M / 2 ^ 53"
proof -
  have x: "1 / 10 \<le> x" "x \<le> M" using d lo m by linarith+
  then have "x / 2 ^ 53 \<le> M / 2 ^ 53" by (simp add: divide_right_mono)
  moreover have "\<bar>rnd x - x\<bar> \<le> x / 2 ^ 53" using rnd x hi by simp
  ultimately show ?thesis using d by linarith
qed

lemma abs_scale:
  fixes p :: rat
  assumes "0 \<le> p" "\<bar>y - c\<bar> \<le> \<delta>" "p \<le> q"
  shows "\<bar>p * y - p * c\<bar> \<le> q * \<delta>"
proof -
  have "\<bar>p * y - p * c\<bar> = p * \<bar>y - c\<bar>"
    using assms(1) by (simp add: abs_mult flip: right_diff_distrib)
  also have "\<dots> \<le> q * \<delta>"
    using assms by (intro mult_mono) simp_all
  finally show ?thesis .
qed

lemma round_core:
  fixes p :: rat
  assumes rnd: "\<forall>x. 1 / 10 \<le> x \<and> x \<le> 100000 \<longrightarrow> \<bar>rnd x - x\<bar> \<le> x / 2 ^ 53"
    and p: "p \<in> {299, 499, 899}"
  shows "Math_round (rnd (rnd (p * rnd (1 - rnd (15 / 100))) * 100)) = p * 85"
proof -
  define a where "a = rnd (15 / 100)"
  define b where "b = rnd (1 - a)"
  define c where "c = rnd (p * b)"
  define d where "d = rnd (c * 100)"
  have p0: "0 \<le> p" "p \<le> 1000" "299 \<le> p" using p by auto
  have "\<bar>a - 15 / 100\<bar> \<le> 0 + 1 / 2 ^ 53"
    unfolding a_def by (rule rounding_step [OF rnd]) simp_all
  then have "\<bar>(1 - a) - 85 / 100\<bar> \<le> 1 / 2 ^ 53"
    by linarith
  then have "\<bar>b - 85 / 100\<bar> \<le> 1 / 2 ^ 53 + 1 / 2 ^ 53"
    unfolding b_def by (rule rounding_step [OF rnd]) simp_all
  then have "\<bar>p * b - p * (85 / 100)\<bar> \<le> 1000 * (1 / 2 ^ 53 + 1 / 2 ^ 53)"
    by (rule abs_scale [OF p0(1) _ p0(2)])
  then have "\<bar>p * b - p * (85 / 100)\<bar> \<le> 2000 / 2 ^ 53"
    by simp
  then have "\<bar>c - p * (85 / 100)\<bar> \<le> 2000 / 2 ^ 53 + 1000 / 2 ^ 53"
    unfolding c_def by (rule rounding_step [OF rnd]) (use p0 in simp_all)
  then have "\<bar>100 * c - 100 * (p * (85 / 100))\<bar> \<le> 100 * (2000 / 2 ^ 53 + 1000 / 2 ^ 53)"
    by (rule abs_scale [of 100 _ _ _ 100, simplified])
  moreover have "100 * c = c * 100" "100 * (p * (85 / 100)) = p * 85"
    by simp_all
  ultimately have "\<bar>c * 100 - p * 85\<bar> \<le> 300000 / 2 ^ 53"
    by (simp add: mult.commute)
  then have "\<bar>d - p * 85\<bar> \<le> 300000 / 2 ^ 53 + 100000 / 2 ^ 53"
    unfolding d_def by (rule rounding_step [OF rnd]) (use p0 in simp_all)
  then have close: "\<bar>d - p * 85\<bar> < 1 / 2"
    by simp
  obtain k :: int where k: "p * 85 = of_int k"
    using p by auto
  have "\<lfloor>d + 1 / 2\<rfloor> = k"
    by (rule floor_unique) (use close k in linarith)+
  then show ?thesis
    by (simp add: Math_round_def k a_def b_def c_def d_def)
qed

lemma price_of_tier:
  "price (recommendPackageFromReport rnd rep) \<in> {299, 499, 899}"
  by (cases "choose_tier (Number (report_score rep))")
     (simp_all add: recommendPackageFromReport_def Let_def)

lemma floor_plus_half: "\<lfloor>(of_int k :: rat) + 1 / 2\<rfloor> = k"
  by (rule floor_unique) simp_all

lemma two_decimals_fixed:
  fixes p :: rat
  assumes "p \<in> {299, 499, 899}"
  shows "round_half_up_2 (p * (1 - 15 / 100)) = p * 85 / 100"
proof -
  obtain k :: int where k: "p * 85 = of_int k"
    using assms by auto
  have "p * (1 - 15 / 100) * 100 + 1 / 2 = of_int k + 1 / 2"
    using k by simp
  then show ?thesis
    by (simp only: round_half_up_2_def floor_plus_half k)
qed

lemma calc_catalog_price:
  fixes p :: rat
  assumes "\<forall>x. 1 / 10 \<le> x \<and> x \<le> 100000 \<longrightarrow> \<bar>rnd x - x\<bar> \<le> x / 2 ^ 53" and "p \<in> {299, 499, 899}"
  shows "calcDiscountedPrice rnd (Fin p) (Fin 15) = Some (Fin (rnd (p * 85 / 100)))"
  by (simp only: calcDiscountedPrice.simps round_core [OF assms])

text \<open>
  C6. For every report, the discounted price is the tier's base price (299, 499, 899)
  times \<open>1 - 15/100\<close>, rounded half-up to two decimal places, as a double; the discount
  percent, the code and the 48 hour line are the same for every tier; for a score of 70
  the discounted price is 424.15.
\<close>

theorem discounted_price_is_rounded_product:
  assumes rnd: "\<forall>x. 1 / 10 \<le> x \<and> x \<le> 100000 \<longrightarrow> \<bar>rnd x - x\<bar> \<le> x / 2 ^ 53"
  shows "discountedPrice (recommendPackageFromReport rnd rep) =
           Some (Fin (rnd (round_half_up_2
             (price (recommendPackageFromReport rnd rep) *
              (1 - discountPercent (recommendPackageFromReport rnd rep) / 100)))))
         \<and> price (recommendPackageFromReport rnd rep) =
             (case tier (recommendPackageFromReport rnd rep) of
                Starter \<Rightarrow> 299 | Business \<Rightarrow> 499 | Premium \<Rightarrow> 899)
         \<and> discountPercent (recommendPackageFromReport rnd rep) = 15
         \<and> code (recommendPackageFromReport rnd rep) = ''BEACON15''
         \<and> urgencyLine (recommendPackageFromReport rnd rep) =
             ''Book within 48 hours to claim the discount.''
         \<and> discountedPrice (recommendPackageFromReport rnd (Some (r\<lparr>score := Num (Fin 70)\<rparr>))) =
             Some (Fin (rnd (42415 / 100)))"
proof -
  let ?R = "recommendPackageFromReport rnd rep"
  have p: "price ?R \<in> {299, 499, 899}" by (rule price_of_tier)
  have dp: "discountPercent ?R = 15"
    by (simp add: recommendPackageFromReport_def Let_def)
  have "discountedPrice ?R = calcDiscountedPrice rnd (Fin (price ?R)) (Fin 15)"
    by (simp add: recommendPackageFromReport_def Let_def)
  also have "\<dots> = Some (Fin (rnd (price ?R * 85 / 100)))"
    by (rule calc_catalog_price [OF rnd p])
  also have "price ?R * 85 / 100 = round_half_up_2 (price ?R * (1 - discountPercent ?R / 100))"
    unfolding dp by (rule two_decimals_fixed [OF p, symmetric])
  finally have main: "discountedPrice ?R =
      Some (Fin (rnd (round_half_up_2 (price ?R * (1 - discountPercent ?R / 100)))))" .
  have cat: "price ?R = (case tier ?R of Starter \<Rightarrow> 299 | Business \<Rightarrow> 499 | Premium \<Rightarrow> 899)"
    by (cases "choose_tier (Number (report_score rep))")
       (simp_all add: recommendPackageFromReport_def Let_def)
  have "(499::rat) \<in> {299, 499, 899}" by simp
  from calc_catalog_price [OF rnd this]
  have v: "calcDiscountedPrice rnd (Fin 499) (Fin 15) = Some (Fin (rnd (42415 / 100)))"
    by simp
  have "discountedPrice (recommendPackageFromReport rnd (Some (r\<lparr>score := Num (Fin 70)\<rparr>))) =
      calcDiscountedPrice rnd (Fin 499) (Fin 15)"
    by (simp add: recommendPackageFromReport_def Let_def report_score_def choose_tier_def)
  then have seventy: "discountedPrice (recommendPackageFromReport rnd (Some (r\<lparr>score := Num (Fin 70)\<rparr>))) =
      Some (Fin (rnd (42415 / 100)))"
    by (simp only: v)
  have fixed: "code ?R = ''BEACON15''"
      "urgencyLine ?R = ''Book within 48 hours to claim the discount.''"
    by (simp_all add: recommendPackageFromReport_def Let_def)
  show ?thesis
    using main cat dp fixed seventy by (intro conjI)
qed

theorem discounted_price_is_rounded_product_witness:
  "discountedPrice (recommendPackageFromReport (\<lambda>x. x) (Some (stored_report\<lparr>score := Num (Fin 70)\<rparr>))) =
     Some (Fin (42415 / 100))"
proof -
  have h: "\<forall>x::rat. 1 / 10 \<le> x \<and> x \<le> 100000 \<longrightarrow> \<bar>(\<lambda>x. x) x - x\<bar> \<le> x / 2 ^ 53"
    by simp
  from discounted_price_is_rounded_product [OF h, of _ stored_report]
  have "discountedPrice (recommendPackageFromReport (\<lambda>x. x) (Some (stored_report\<lparr>score := Num (Fin 70)\<rparr>))) =
     Some (Fin ((\<lambda>x. x) (42415 / 100)))"
    by blast
  then show ?thesis
    by simp
qed

text \<open>
  The recommendation is computed from the score of the report and from nothing else in
  it: two reports with the same score get the same recommendation in every field.
\<close>

lemma same_score_same_recommendation:
  "report_score r1 = report_score r2 \<Longrightarrow>
     recommendPackageFromReport rnd r1 = recommendPackageFromReport rnd r2"
  by (simp add: recommendPackageFromReport_def)

subsection \<open>Strings\<close>

lemma is_space_to_lower [simp]: "is_space (to_lower c) = is_space c"
  by (auto simp: is_space_def to_lower_def Let_def)

lemma to_lower_idem [simp]: "to_lower (to_lower c) = to_lower c"
  by (auto simp: to_lower_def Let_def)

lemma toLowerCase_idem [simp]: "toLowerCase (toLowerCase s) = toLowerCase s"
  by (simp add: toLowerCase_def)

lemma toLowerCase_append [simp]: "toLowerCase (a @ b) = toLowerCase a @ toLowerCase b"
  by (simp add: toLowerCase_def)

lemma trim_toLowerCase: "trim (toLowerCase s) = toLowerCase (trim s)"
  by (simp add: trim_def toLowerCase_def dropWhile_map rev_map comp_def)

lemma trim_Nil [simp]: "trim [] = []"
  by (simp add: trim_def)

lemma trim_trimmed:
  assumes "s \<noteq> []" "\<not> is_space (hd s)" "\<not> is_space (last s)"
  shows "trim s = s"
proof -
  have "dropWhile is_space s = s"
    using assms by (simp add: dropWhile_eq_self_iff)
  moreover have "dropWhile is_space (rev s) = rev s"
    using assms by (simp add: dropWhile_eq_self_iff hd_rev)
  ultimately show ?thesis
    by (simp add: trim_def)
qed

lemma trim_ends:
  assumes "trim s \<noteq> []"
  shows "\<not> is_space (hd (trim s)) \<and> \<not> is_space (last (trim s))"
proof -
  define u where "u = dropWhile is_space s"
  define v where "v = dropWhile is_space (rev u)"
  have t: "trim s = rev v"
    by (simp add: trim_def u_def v_def)
  have v: "v \<noteq> []" using assms t by simp
  then have u: "u \<noteq> []" by (auto simp: v_def)
  have "\<not> is_space (hd v)"
    unfolding v_def using v by (simp add: v_def hd_dropWhile)
  then have l: "\<not> is_space (last (trim s))"
    using v by (simp add: t last_rev)
  have "v = drop (length (takeWhile is_space (rev u))) (rev u)"
    by (simp add: v_def dropWhile_eq_drop)
  then have "rev v = take (length u - length (takeWhile is_space (rev u))) u"
    by (simp add: rev_drop)
  moreover have "rev v \<noteq> []" using v by simp
  ultimately have "hd (rev v) = hd u"
    by (metis hd_take take_eq_Nil length_greater_0_conv neq0_conv take_0)
  moreover have "\<not> is_space (hd u)"
    unfolding u_def using u by (simp add: u_def hd_dropWhile)
  ultimately show ?thesis
    using l t by simp
qed

lemma trim_idem [simp]: "trim (trim s) = trim s"
  by (cases "trim s = []") (simp_all add: trim_trimmed trim_ends)

lemma clean_email_fixed: "toLowerCase (trim (clean_email b)) = clean_email b"
  by (simp add: clean_email_def trim_toLowerCase)

text \<open>
  The executable check \<open>email_regex\<close> accepts exactly the strings matched by
  \<^verbatim>\<open>/^[^\s@]+@[^\s@]+\.[^\s@]+$/\<close>.
\<close>

lemma email_regex_iff:
  "email_regex s \<longleftrightarrow>
     (\<exists>a b c. s = a @ ''@'' @ b @ ''.'' @ c \<and> a \<noteq> [] \<and> b \<noteq> [] \<and> c \<noteq> [] \<and>
        list_all no_space_or_at (a @ b @ c))"
proof
  assume r: "email_regex s"
  define a where "a = takeWhile (\<lambda>c. c \<noteq> CHR ''@'') s"
  define rest where "rest = dropWhile (\<lambda>c. c \<noteq> CHR ''@'') s"
  have s: "s = a @ rest"
    by (simp add: a_def rest_def)
  from r have a: "a \<noteq> []" "list_all no_space_or_at a" and rest: "rest \<noteq> []"
    and dom: "list_all no_space_or_at (tl rest)" and dot: "CHR ''.'' \<in> set (butlast (tl (tl rest)))"
    by (simp_all add: email_regex_def a_def rest_def Let_def)
  have "hd rest = CHR ''@''"
    using rest hd_dropWhile [of "\<lambda>c. c \<noteq> CHR ''@''" s] by (simp add: rest_def)
  with rest have rest_eq: "rest = CHR ''@'' # tl rest"
    by (cases rest) simp_all
  from dot obtain u v where uv: "butlast (tl (tl rest)) = u @ CHR ''.'' # v"
    by (auto dest: split_list)
  then have nonempty: "tl (tl rest) \<noteq> []" "tl rest \<noteq> []"
    by auto
  then have "tl (tl rest) = butlast (tl (tl rest)) @ [last (tl (tl rest))]"
    by simp
  with uv have "tl (tl rest) = u @ CHR ''.'' # (v @ [last (tl (tl rest))])"
    by simp
  moreover have "tl rest = hd (tl rest) # tl (tl rest)"
    using nonempty by simp
  ultimately have dom_eq: "tl rest = (hd (tl rest) # u) @ ''.'' @ (v @ [last (tl (tl rest))])"
    by simp
  define b where "b = hd (tl rest) # u"
  define c where "c = v @ [last (tl (tl rest))]"
  have dom_bc: "tl rest = b @ ''.'' @ c"
    using dom_eq by (simp only: b_def c_def)
  have "s = a @ ''@'' @ b @ ''.'' @ c"
    using s rest_eq dom_bc by simp
  moreover have "list_all no_space_or_at (b @ c)"
    using dom dom_bc by simp
  ultimately show "\<exists>a b c. s = a @ ''@'' @ b @ ''.'' @ c \<and> a \<noteq> [] \<and> b \<noteq> [] \<and> c \<noteq> [] \<and>
        list_all no_space_or_at (a @ b @ c)"
    using a by (intro exI [of _ a] exI [of _ b] exI [of _ c]) (simp add: b_def c_def)
next
  assume "\<exists>a b c. s = a @ ''@'' @ b @ ''.'' @ c \<and> a \<noteq> [] \<and> b \<noteq> [] \<and> c \<noteq> [] \<and>
        list_all no_space_or_at (a @ b @ c)"
  then obtain a b c where s: "s = a @ CHR ''@'' # (b @ CHR ''.'' # c)"
    and ne: "a \<noteq> []" "b \<noteq> []" "c \<noteq> []"
    and ok: "list_all no_space_or_at a" "list_all no_space_or_at b" "list_all no_space_or_at c"
    by auto
  have a: "\<forall>x \<in> set a. x \<noteq> CHR ''@''"
    using ok(1) by (auto simp: list_all_iff no_space_or_at_def)
  then have tw: "takeWhile (\<lambda>c. c \<noteq> CHR ''@'') s = a"
    and dw: "dropWhile (\<lambda>c. c \<noteq> CHR ''@'') s = CHR ''@'' # (b @ CHR ''.'' # c)"
    unfolding s by (simp_all add: takeWhile_append2 dropWhile_append2)
  have dot: "no_space_or_at CHR ''.''"
    by (simp add: no_space_or_at_def is_space_def)
  have "butlast (tl (b @ CHR ''.'' # c)) = tl b @ CHR ''.'' # butlast c"
    using ne by (cases b) (simp_all add: butlast_append)
  then show "email_regex s"
    using ne ok dot by (simp add: email_regex_def Let_def tw dw)
qed

subsection \<open>The calls of the side channels\<close>

lemma without_console_append [simp]:
  "without_console (a @ b) = without_console a @ without_console b"
  by (simp add: without_console_def)

lemma without_console_Cons [simp]:
  "without_console (c # cs) = (if is_console c then without_console cs else c # without_console cs)"
  by (simp add: without_console_def)

lemma without_console_Nil [simp]: "without_console [] = []"
  by (simp add: without_console_def)

lemma saveLead_inserts:
  "c \<in> set (saveLead E em bn nm d h sc su rc) \<Longrightarrow> (\<exists>l. c = InsertLead l) \<or> is_console c"
  by (auto simp: saveLead_def split: option.splits outcome.splits)

lemma saveLead_without_console:
  "without_console (saveLead E em bn nm d h sc su rc) =
     (case lead_row em bn nm d h sc su rc of None \<Rightarrow> [] | Some row \<Rightarrow> [InsertLead row])"
  by (auto simp: saveLead_def split: option.splits outcome.splits)

lemma send_calls:
  "c \<in> set (snd (sendBeaconReportEmail E to' subj r bn w)) \<Longrightarrow>
     is_console c \<or> (\<exists>m. c = SendMail m \<and> mail_report m = r)"
  by (auto simp: sendBeaconReportEmail_def Let_def split: if_splits option.splits)

lemma send_returns:
  "mail_can_be_built E \<Longrightarrow> fst (sendBeaconReportEmail E to' subj r bn w) = None"
  by (auto simp: sendBeaconReportEmail_def mail_can_be_built_def Let_def split: option.splits)

lemma send_ignores_lead_store:
  "sendBeaconReportEmail (E\<lparr>insert_lead := L\<rparr>) = sendBeaconReportEmail E"
  by (simp add: sendBeaconReportEmail_def fun_eq_iff)


subsection \<open>\<^verbatim>\<open>POST /api/analyze\<close>\<close>

lemma or_empty_js_string:
  "or_empty_js (JString s) = Some s"
  by (simp add: or_empty_js_def)

lemma analyze_after_validation:
  assumes "passes_validation E b n"
  shows "analyze E b =
     (case select_report E (hashString (sha256_hex E) n) of
        Throws e \<Rightarrow> caught e [SelectReport (hashString (sha256_hex E) n)]
      | Error m \<Rightarrow> (Json 500 (Failure m), [SelectReport (hashString (sha256_hex E) n)])
      | Data (Some r) \<Rightarrow>
          on_cache_hit E b (final_business_name b)
            (clean_email b) n (hashString (sha256_hex E) n) r [SelectReport (hashString (sha256_hex E) n)]
      | Data None \<Rightarrow>
          on_cache_miss E b (final_business_name b)
            (clean_email b) n (hashString (sha256_hex E) n) [SelectReport (hashString (sha256_hex E) n)])"
proof -
  from assms obtain bn where bn: "or_empty_js (js_or (businessName b) (business_name b)) = Some bn"
    by (auto simp: passes_validation_def)
  from assms obtain w where w: "website b = JString w"
    and n: "normalizeUrl (hostname_of E) (Some w) = Some n"
    by (auto simp: passes_validation_def split: json.splits)
  have ow: "or_empty_js (website b) = Some w"
    by (simp add: w or_empty_js_string)
  have F: "final_business_name b = trim bn"
    by (simp add: final_business_name_def bn)
  show ?thesis
    using assms bn n ow
    unfolding analyze_def passes_validation_def Let_def clean_email_def [symmetric] F
    by simp
qed

lemma passes_validation_website:
  assumes "passes_validation E b n"
  obtains w where "or_empty_js (website b) = Some w"
    and "normalizeUrl (hostname_of E) (Some w) = Some n"
proof -
  from assms obtain w where "website b = JString w"
    and "normalizeUrl (hostname_of E) (Some w) = Some n"
    by (auto simp: passes_validation_def split: json.splits)
  then show ?thesis
    using that [of w] by (simp add: or_empty_js_string)
qed

lemma caught_without_console:
  "fst (caught e c) = Json 500 (Failure (err_text e))"
  "without_console (snd (caught e c)) = without_console c"
  by (simp_all add: caught_def without_console_def)

lemma on_cache_hit_status:
  "fst (on_cache_hit E b F ce n h r c) \<noteq> Json 400 j"
  by (auto simp: on_cache_hit_def caught_def Let_def split: prod.splits option.splits)

lemma on_cache_miss_status:
  "fst (on_cache_miss E b F ce n h c) \<noteq> Json 400 j"
  by (auto simp: on_cache_miss_def caught_def Let_def split: prod.splits option.splits outcome.splits)

text \<open>
  Every answer 400 of the handler comes with an empty list of calls, and a call other
  than a console line is issued only after both e-mail checks have passed.
\<close>

lemma status_400_has_no_calls:
  "fst (analyze E b) = Json 400 j \<Longrightarrow> snd (analyze E b) = []"
  by (auto simp: analyze_def Let_def caught_def on_cache_hit_status on_cache_miss_status
      split: if_splits option.splits outcome.splits)

lemma no_mx_records:
  assumes "split_second (CHR ''@'') (clean_email b) = Some d"
    and "resolveMx E d = None \<or> resolveMx E d = Some []"
  shows "\<not> emailHasMx (resolveMx E) (clean_email b)"
  using assms by (auto simp: emailHasMx_def clean_email_fixed Let_def)

lemma calls_imply_checks:
  "without_console (snd (analyze E b)) \<noteq> [] \<Longrightarrow>
     isValidEmailFormat (clean_email b) \<and> emailHasMx (resolveMx E) (clean_email b)"
  unfolding analyze_def Let_def clean_email_def [symmetric]
  by (auto simp: caught_def split: if_splits option.splits)

text \<open>
  A request whose e-mail address is well-formed, but whose domain has no mail exchanger
  records or does not resolve, is answered 400 with no call issued, as long as the
  business name of the body is a string or is falsy.
\<close>

lemma unreachable_mail_domain_with_textual_business_name:
  assumes "or_empty_js (js_or (businessName b) (business_name b)) \<noteq> None"
    and "js_truthy (email b)" and "js_truthy (website b)"
    and "isValidEmailFormat (clean_email b)"
    and "split_second (CHR ''@'') (clean_email b) = Some d"
    and "resolveMx E d = None \<or> resolveMx E d = Some []"
  shows "analyze E b =
           (Json 400 (Failure ''That email domain cannot receive email. Please use a real email.''), [])"
proof -
  have "\<not> emailHasMx (resolveMx E) (clean_email b)"
    using assms(5,6) by (rule no_mx_records)
  moreover obtain bn where "or_empty_js (js_or (businessName b) (business_name b)) = Some bn"
    using assms(1) by auto
  ultimately show ?thesis
    using assms(2-4) unfolding analyze_def Let_def clean_email_def [symmetric] by simp
qed

text \<open>
  A business name that is truthy and not a string makes \<^verbatim>\<open>trim\<close> throw in the first
  statement of the handler: the answer is 500 whatever the rest of the body is. The
  CommonJS variant does not call \<^verbatim>\<open>trim\<close> there and answers 400 to an unreachable
  mail domain for every business name.
\<close>

lemma non_textual_business_name_is_answered_500:
  assumes "or_empty_js (js_or (businessName b) (business_name b)) = None"
  shows "analyze E b = caught (type_error E) []"
  using assms by (simp add: analyze_def)

lemma analyze_cjs_unreachable_mail_domain:
  assumes "js_truthy (email b)" and "js_truthy (website b)"
    and "isValidEmailFormat (clean_email b)"
    and "split_second (CHR ''@'') (clean_email b) = Some d"
    and "resolveMx E d = None \<or> resolveMx E d = Some []"
  shows "analyze_cjs E b =
           (Json 400 (Failure ''That email domain cannot receive email. Please use a real email.''), [])"
proof -
  have "\<not> emailHasMx (resolveMx E) (clean_email b)"
    using assms(4,5) by (rule no_mx_records)
  then show ?thesis
    using assms(1-3) unfolding analyze_cjs_def Let_def clean_email_def [symmetric] by simp
qed

text \<open>
  C4. The claim gives the answer 400, with no write, to every request whose e-mail
  address is well-formed and whose domain has no mail exchanger. The request
  \<open>numeric_name_body\<close> has such an address (\<^verbatim>\<open>bob@nowhere.invalid\<close>) and the business name
  \<^verbatim>\<open>5\<close>: the handler throws at \<^verbatim>\<open>(businessName || business_name || "").trim()\<close> before it
  reaches either e-mail check, and its \<^verbatim>\<open>catch\<close> block answers 500 with the message of
  the \<^verbatim>\<open>TypeError\<close>. No table and no mail call is issued. The handler of \<^verbatim>\<open>server.js\<close>
  answers 400 to the same request.
\<close>

theorem numeric_business_name_is_answered_500_not_400:
  "isValidEmailFormat (clean_email numeric_name_body) \<and>
   split_second (CHR ''@'') (clean_email numeric_name_body) = Some ''nowhere.invalid'' \<and>
   resolveMx sample_env ''nowhere.invalid'' = None \<and>
   analyze sample_env numeric_name_body =
     (Json 500 (Failure (message (type_error sample_env))),
      [Console (''ANALYZE ERROR: '' @ as_string (type_error sample_env))]) \<and>
   analyze_cjs sample_env numeric_name_body =
     (Json 400 (Failure ''That email domain cannot receive email. Please use a real email.''), []) \<and>
   analyze sample_env unreachable_body =
     (Json 400 (Failure ''That email domain cannot receive email. Please use a real email.''), [])"
  by code_simp

theorem numeric_business_name_is_answered_500_not_400_witness:
  "fst (analyze sample_env numeric_name_body) = Json 500 (Failure ''value.trim is not a function'') \<and>
   without_console (snd (analyze sample_env numeric_name_body)) = [] \<and>
   fst (analyze_cjs sample_env numeric_name_body) =
     Json 400 (Failure ''That email domain cannot receive email. Please use a real email.'') \<and>
   snd (analyze_cjs sample_env numeric_name_body) = []"
  using numeric_business_name_is_answered_500_not_400
  by (simp add: sample_env_def)

lemma saveLead_cjs_without_console:
  "without_console (saveLead_cjs E em bn nm d h sc su) =
     (case lead_row_cjs em bn nm d h sc su of None \<Rightarrow> [] | Some row \<Rightarrow> [InsertLeadCjs row])"
  by (auto simp: saveLead_cjs_def split: option.splits outcome.splits)

lemma analyze_cjs_after_failed_insert:
  assumes "passes_validation E b n"
    and "select_report E (hashString (sha256_hex E) n) = Data None"
    and "insert_report E (fresh_report E n) = Error m"
  shows "analyze_cjs E b =
           (Json 500 (Failure m),
            [SelectReport (hashString (sha256_hex E) n), InsertReport (fresh_report E n)])"
proof -
  from assms(1) obtain w where "or_empty_js (website b) = Some w"
    and "normalizeUrl (hostname_of E) (Some w) = Some n"
    by (rule passes_validation_website)
  then show ?thesis
    using assms
    unfolding analyze_cjs_def passes_validation_def Let_def clean_email_def [symmetric]
      fresh_report_def
    by simp
qed

lemma analyze_cjs_ignores_lead_store:
  "fst (analyze_cjs (E\<lparr>insert_lead_cjs := L\<rparr>) b) = fst (analyze_cjs E b) \<and>
   without_console (snd (analyze_cjs (E\<lparr>insert_lead_cjs := L\<rparr>) b)) =
   without_console (snd (analyze_cjs E b))"
  by (simp add: analyze_cjs_def Let_def caught_cjs_def saveLead_cjs_without_console
      split: option.splits outcome.splits)

lemma analyze_cjs_hit:
  assumes "passes_validation E b n"
    and "select_report E (hashString (sha256_hex E) n) = Data (Some r)"
  shows "fst (analyze_cjs E b) = Json 200 (Success True r)"
proof -
  from assms(1) obtain w where "or_empty_js (website b) = Some w"
    and "normalizeUrl (hostname_of E) (Some w) = Some n"
    by (rule passes_validation_website)
  then show ?thesis
    using assms
    unfolding analyze_cjs_def passes_validation_def Let_def clean_email_def [symmetric]
    by simp
qed

lemma analyze_cjs_miss:
  assumes "passes_validation E b n"
    and "select_report E (hashString (sha256_hex E) n) = Data None"
    and "insert_report E (fresh_report E n) = Data ()"
  shows "fst (analyze_cjs E b) = Json 200 (Success False (fresh_report E n))"
proof -
  from assms(1) obtain w where "or_empty_js (website b) = Some w"
    and "normalizeUrl (hostname_of E) (Some w) = Some n"
    by (rule passes_validation_website)
  then show ?thesis
    using assms
    unfolding analyze_cjs_def passes_validation_def Let_def clean_email_def [symmetric]
      fresh_report_def
    by simp
qed

text \<open>
  C1, as claimed, asks for a second lookup after a lost insert race. The handler has no
  such path, in either variant: with an empty lookup and an insert that reports the
  unique-index violation, the answer is 500 and the calls are one lookup and one insert.
\<close>

theorem lost_insert_race_counterexample:
  "select_report conflict_env ''sha256:shop.example.org'' = Data None \<and>
   insert_report conflict_env (fresh_report conflict_env ''shop.example.org'') =
     Error ''duplicate key value violates unique constraint'' \<and>
   analyze conflict_env sample_body =
     (Json 500 (Failure ''duplicate key value violates unique constraint''),
      [SelectReport ''sha256:shop.example.org'',
       InsertReport (fresh_report conflict_env ''shop.example.org'')]) \<and>
   analyze_cjs conflict_env sample_body =
     (Json 500 (Failure ''duplicate key value violates unique constraint''),
      [SelectReport ''sha256:shop.example.org'',
       InsertReport (fresh_report conflict_env ''shop.example.org'')])"
  by code_simp

text \<open>
  C1, amended. When the insert of the fresh report returns an error, whatever its cause,
  the handler (of either variant) answers 500 with the message of that error; it has
  issued the lookup and the insert and nothing else: no second lookup, no lead, no mail.
\<close>

theorem failed_report_insert_is_answered_500:
  assumes "passes_validation E b n"
    and "select_report E (hashString (sha256_hex E) n) = Data None"
    and "insert_report E (fresh_report E n) = Error m"
  shows "analyze E b =
           (Json 500 (Failure m),
            [SelectReport (hashString (sha256_hex E) n), InsertReport (fresh_report E n)])
         \<and> analyze_cjs E b =
           (Json 500 (Failure m),
            [SelectReport (hashString (sha256_hex E) n), InsertReport (fresh_report E n)])"
proof
  show "analyze E b =
      (Json 500 (Failure m),
       [SelectReport (hashString (sha256_hex E) n), InsertReport (fresh_report E n)])"
    using assms(2,3)
    by (simp add: analyze_after_validation [OF assms(1)] on_cache_miss_def fresh_report_def Let_def)
  show "analyze_cjs E b =
      (Json 500 (Failure m),
       [SelectReport (hashString (sha256_hex E) n), InsertReport (fresh_report E n)])"
    using assms by (rule analyze_cjs_after_failed_insert)
qed

theorem failed_report_insert_is_answered_500_witness:
  "passes_validation conflict_env (sample_body\<lparr>refresh := JUndefined\<rparr>) ''shop.example.org'' \<and>
   select_report conflict_env (hashString (sha256_hex conflict_env) ''shop.example.org'') = Data None \<and>
   insert_report conflict_env (fresh_report conflict_env ''shop.example.org'') =
     Error ''duplicate key value violates unique constraint'' \<and>
   fst (analyze conflict_env (sample_body\<lparr>refresh := JUndefined\<rparr>)) =
     Json 500 (Failure ''duplicate key value violates unique constraint'') \<and>
   fst (analyze_cjs conflict_env (sample_body\<lparr>refresh := JUndefined\<rparr>)) =
     Json 500 (Failure ''duplicate key value violates unique constraint'')"
proof -
  have 1: "passes_validation conflict_env (sample_body\<lparr>refresh := JUndefined\<rparr>) ''shop.example.org''"
    by code_simp
  have 2: "select_report conflict_env (hashString (sha256_hex conflict_env) ''shop.example.org'') = Data None"
    by code_simp
  have 3: "insert_report conflict_env (fresh_report conflict_env ''shop.example.org'') =
     Error ''duplicate key value violates unique constraint''"
    by code_simp
  show ?thesis
    using failed_report_insert_is_answered_500 [OF 1 2 3] 1 2 3 by simp
qed

lemma on_cache_hit_calls:
  assumes "c \<in> set (snd (on_cache_hit E b F ce n h r calls))"
  shows "c \<in> set calls \<or> (\<exists>l. c = InsertLead l) \<or> is_console c \<or>
         (refresh b = JBool True \<and> (\<exists>m. c = SendMail m \<and> mail_report m = r))"
proof (cases "refresh b = JBool True")
  case False
  then show ?thesis
    using assms saveLead_inserts [of _ E ce "JString F" "name b" n h "score r" "summary r"]
    by (auto simp: on_cache_hit_def Let_def)
next
  case True
  obtain x sent where s: "sendBeaconReportEmail E ce ''Your Beacon AI website report'' r
      (if F \<noteq> [] then F else n) (String_of (website b)) = (x, sent)"
    by (cases "sendBeaconReportEmail E ce ''Your Beacon AI website report'' r
      (if F \<noteq> [] then F else n) (String_of (website b))")
  have sent: "\<And>c. c \<in> set sent \<Longrightarrow> is_console c \<or> (\<exists>m. c = SendMail m \<and> mail_report m = r)"
    using send_calls [of _ E ce "''Your Beacon AI website report''" r
        "if F \<noteq> [] then F else n" "String_of (website b)"] s
    by simp
  show ?thesis
    using assms True s sent saveLead_inserts [of _ E ce "JString F" "name b" n h "score r" "summary r"]
    by (cases x) (auto simp: on_cache_hit_def Let_def caught_def)
qed

lemma on_cache_hit_response:
  assumes "refresh b \<noteq> JBool True \<or> mail_can_be_built E"
  shows "fst (on_cache_hit E b F ce n h r calls) = Json 200 (Success True r)"
proof (cases "refresh b = JBool True")
  case False
  then show ?thesis by (simp add: on_cache_hit_def Let_def)
next
  case True
  with assms have "mail_can_be_built E" by simp
  then obtain sent where "sendBeaconReportEmail E ce ''Your Beacon AI website report'' r
      (if F \<noteq> [] then F else n) (String_of (website b)) = (None, sent)"
    using send_returns [of E ce "''Your Beacon AI website report''" r
        "if F \<noteq> [] then F else n" "String_of (website b)"]
    by (cases "sendBeaconReportEmail E ce ''Your Beacon AI website report'' r
      (if F \<noteq> [] then F else n) (String_of (website b))") simp
  then show ?thesis
    using True by (simp add: on_cache_hit_def Let_def)
qed

lemma on_cache_miss_response:
  assumes "mail_can_be_built E" and "insert_report E (fresh_report E n) = Data ()"
  shows "fst (on_cache_miss E b F ce n (hashString (sha256_hex E) n) calls) =
           Json 200 (Success False (fresh_report E n))"
proof -
  obtain sent where "sendBeaconReportEmail E ce ''Your Beacon AI website report'' (fresh_report E n)
      (if F \<noteq> [] then F else n) (String_of (website b)) = (None, sent)"
    using send_returns [OF assms(1), of ce "''Your Beacon AI website report''" "fresh_report E n"
        "if F \<noteq> [] then F else n" "String_of (website b)"]
    by (cases "sendBeaconReportEmail E ce ''Your Beacon AI website report'' (fresh_report E n)
      (if F \<noteq> [] then F else n) (String_of (website b))") simp
  then show ?thesis
    using assms(2) unfolding on_cache_miss_def Let_def fresh_report_def [symmetric]
    by simp
qed

text \<open>
  On a cache hit the handler issues no insert into the Reports table, and a mail is sent
  only when \<open>refresh\<close> is \<open>true\<close>, and it carries the stored report. The answer is 200
  with \<open>cached = true\<close> and the stored report as it was read when \<open>refresh\<close> is not
  \<open>true\<close>, and also when it is, provided the message can be composed
  (\<open>mail_can_be_built\<close>). The fresh analysis (score 65) exists only on the miss path.
\<close>

lemma cache_hit_leaves_stored_report_alone:
  assumes "passes_validation E b n"
    and "select_report E (hashString (sha256_hex E) n) = Data (Some r)"
  shows "(\<forall>x. InsertReport x \<notin> set (snd (analyze E b)))
       \<and> (refresh b \<noteq> JBool True \<or> mail_can_be_built E \<longrightarrow>
            fst (analyze E b) = Json 200 (Success True r))
       \<and> (\<forall>m. SendMail m \<in> set (snd (analyze E b)) \<longrightarrow> refresh b = JBool True \<and> mail_report m = r)"
proof -
  let ?h = "hashString (sha256_hex E) n"
  let ?F = "final_business_name b"
  have a: "analyze E b = on_cache_hit E b ?F (clean_email b) n ?h r [SelectReport ?h]"
    using assms(2) by (simp add: analyze_after_validation [OF assms(1)])
  have calls: "\<And>c. c \<in> set (snd (analyze E b)) \<Longrightarrow>
      c = SelectReport ?h \<or> (\<exists>l. c = InsertLead l) \<or> is_console c \<or>
      (refresh b = JBool True \<and> (\<exists>m. c = SendMail m \<and> mail_report m = r))"
    unfolding a using on_cache_hit_calls [of _ E b ?F "clean_email b" n ?h r "[SelectReport ?h]"]
    by simp
  have 1: "\<forall>x. InsertReport x \<notin> set (snd (analyze E b))"
    using calls by fastforce
  have 2: "refresh b \<noteq> JBool True \<or> mail_can_be_built E \<longrightarrow>
            fst (analyze E b) = Json 200 (Success True r)"
    unfolding a using on_cache_hit_response by blast
  have 3: "\<forall>m. SendMail m \<in> set (snd (analyze E b)) \<longrightarrow> refresh b = JBool True \<and> mail_report m = r"
    using calls by fastforce
  show ?thesis
    using 1 2 3 by blast
qed

text \<open>
  When composing the message throws, the exception leaves \<^verbatim>\<open>sendBeaconReportEmail\<close>,
  whose \<^verbatim>\<open>try\<close> block holds the send only, and the handler answers 500 after the lead has
  been written.
\<close>

lemma cache_hit_with_failing_composition:
  assumes "passes_validation E b n"
    and "select_report E (hashString (sha256_hex E) n) = Data (Some r)"
    and "refresh b = JBool True"
    and "resend_configured E" and "EMAIL_FROM E \<noteq> []" and "\<not> backend_url_parses E"
  shows "fst (analyze E b) = Json 500 (Failure ''Invalid URL'')"
proof -
  have "clean_email b \<noteq> []"
    using assms(1) by (auto simp: passes_validation_def isValidEmailFormat_def email_regex_def)
  then show ?thesis
    using assms(2-6)
    by (simp add: analyze_after_validation [OF assms(1)] on_cache_hit_def Let_def
        sendBeaconReportEmail_def caught_def err_text_def invalid_url_def)
qed

text \<open>
  C7. The claim gives the answer \<open>cached = true\<close> with the stored report to every cache
  hit. With the mail client set up and a \<^verbatim>\<open>PUBLIC_BACKEND_URL\<close> that \<^verbatim>\<open>new URL\<close> rejects
  (\<open>unparsable_base_env\<close>), the request \<open>sample_body\<close>, whose \<open>refresh\<close> is \<open>true\<close>, finds
  \<open>stored_report\<close>, writes the lead, and is answered 500 with the message
  \<^verbatim>\<open>Invalid URL\<close>: \<^verbatim>\<open>buildTrackedUrl\<close> throws while the message is composed, outside the
  \<^verbatim>\<open>try\<close> block of \<^verbatim>\<open>sendBeaconReportEmail\<close>. No insert into the Reports table is issued.
  The same request without \<open>refresh\<close>, or with a base URL that parses (\<open>cached_env\<close>), is
  answered 200 with the stored report.
\<close>

theorem refresh_on_cache_hit_is_answered_500_when_base_url_is_unparsable:
  "passes_validation unparsable_base_env sample_body ''shop.example.org'' \<and>
   select_report unparsable_base_env (hashString (sha256_hex unparsable_base_env) ''shop.example.org'') =
     Data (Some stored_report) \<and>
   refresh sample_body = JBool True \<and>
   analyze unparsable_base_env sample_body =
     (Json 500 (Failure ''Invalid URL''),
      [SelectReport ''sha256:shop.example.org'',
       InsertLead
         \<lparr>lead_email = ''ann@example.com'', lead_business_name = ''Shop'',
          lead_contact_name = Some ''Ann'', lead_domain = ''shop.example.org'',
          lead_url_hash = ''sha256:shop.example.org'', lead_score = Num (Fin 90),
          lead_summary = Some ''Fast and clear.'', recommended_tier = Some Starter,
          recommended_package_name = Some ''Starter Website'', recommended_price = Some 299,
          recommended_discount_percent = Some 15,
          recommended_discounted_price = Some (Fin (25415 / 100)),
          discount_code = Some ''BEACON15'', discount_deadline_hours = 48\<rparr>,
       Console ''ANALYZE ERROR: TypeError: Invalid URL'']) \<and>
   fst (analyze unparsable_base_env (sample_body\<lparr>refresh := JUndefined\<rparr>)) =
     Json 200 (Success True stored_report) \<and>
   fst (analyze cached_env sample_body) = Json 200 (Success True stored_report)"
  by code_simp

theorem refresh_on_cache_hit_is_answered_500_when_base_url_is_unparsable_witness:
  "fst (analyze unparsable_base_env sample_body) = Json 500 (Failure ''Invalid URL'') \<and>
   length (filter is_insert (snd (analyze unparsable_base_env sample_body))) = 1 \<and>
   fst (analyze cached_env sample_body) = Json 200 (Success True stored_report)"
  using refresh_on_cache_hit_is_answered_500_when_base_url_is_unparsable
  by simp

lemma on_cache_hit_ignores_lead_store:
  "fst (on_cache_hit (E\<lparr>insert_lead := L\<rparr>) b F ce n h r c) = fst (on_cache_hit E b F ce n h r c) \<and>
   without_console (snd (on_cache_hit (E\<lparr>insert_lead := L\<rparr>) b F ce n h r c)) =
   without_console (snd (on_cache_hit E b F ce n h r c))"
proof (cases "sendBeaconReportEmail E ce ''Your Beacon AI website report'' r
      (if F \<noteq> [] then F else n) (String_of (website b))")
  case (Pair x sent)
  then show ?thesis
    by (cases x)
       (simp_all add: on_cache_hit_def Let_def send_ignores_lead_store caught_without_console
          saveLead_without_console)
qed

lemma on_cache_miss_ignores_lead_store:
  "fst (on_cache_miss (E\<lparr>insert_lead := L\<rparr>) b F ce n h c) = fst (on_cache_miss E b F ce n h c) \<and>
   without_console (snd (on_cache_miss (E\<lparr>insert_lead := L\<rparr>) b F ce n h c)) =
   without_console (snd (on_cache_miss E b F ce n h c))"
proof (cases "sendBeaconReportEmail E ce ''Your Beacon AI website report''
      \<lparr>url_hash = h, domain = n, score = Num (Fin 65),
       summary = Some ''Solid foundation, but performance, SEO, and conversion clarity can be improved.''\<rparr>
      (if F \<noteq> [] then F else n) (String_of (website b))")
  case (Pair x sent)
  then show ?thesis
    by (cases x)
       (simp_all add: on_cache_miss_def Let_def send_ignores_lead_store caught_without_console
          saveLead_without_console split: outcome.splits split del: if_split)
qed

lemma analyze_ignores_lead_store:
  "fst (analyze (E\<lparr>insert_lead := L\<rparr>) b) = fst (analyze E b) \<and>
   without_console (snd (analyze (E\<lparr>insert_lead := L\<rparr>) b)) = without_console (snd (analyze E b))"
  by (simp add: analyze_def Let_def on_cache_hit_ignores_lead_store on_cache_miss_ignores_lead_store
      caught_without_console split: option.splits outcome.splits)

text \<open>
  C8. The answer of \<^verbatim>\<open>/api/analyze\<close> does not depend on what the insert into the Leads
  table does (success, error value or exception), and neither do the calls other than
  the console lines. In particular a request that passes validation, with a working
  Reports table and a composable message, is answered 200 with the stored report and
  \<open>cached = true\<close> on a hit, and with the fresh report and \<open>cached = false\<close> on a miss,
  whatever happens to the lead. The same holds for the CommonJS variant, which sends no
  mail.
\<close>

theorem lead_failure_does_not_reach_caller:
  "fst (analyze (E\<lparr>insert_lead := L\<rparr>) b) = fst (analyze E b)
   \<and> without_console (snd (analyze (E\<lparr>insert_lead := L\<rparr>) b)) = without_console (snd (analyze E b))
   \<and> (passes_validation E b n \<and> mail_can_be_built E \<and>
        select_report E (hashString (sha256_hex E) n) = Data (Some r) \<longrightarrow>
        fst (analyze (E\<lparr>insert_lead := L\<rparr>) b) = Json 200 (Success True r))
   \<and> (passes_validation E b n \<and> mail_can_be_built E \<and>
        select_report E (hashString (sha256_hex E) n) = Data None \<and>
        insert_report E (fresh_report E n) = Data () \<longrightarrow>
        fst (analyze (E\<lparr>insert_lead := L\<rparr>) b) = Json 200 (Success False (fresh_report E n)))
   \<and> fst (analyze_cjs (E\<lparr>insert_lead_cjs := K\<rparr>) b) = fst (analyze_cjs E b)
   \<and> without_console (snd (analyze_cjs (E\<lparr>insert_lead_cjs := K\<rparr>) b)) =
       without_console (snd (analyze_cjs E b))
   \<and> (passes_validation E b n \<and>
        select_report E (hashString (sha256_hex E) n) = Data (Some r) \<longrightarrow>
        fst (analyze_cjs (E\<lparr>insert_lead_cjs := K\<rparr>) b) = Json 200 (Success True r))
   \<and> (passes_validation E b n \<and>
        select_report E (hashString (sha256_hex E) n) = Data None \<and>
        insert_report E (fresh_report E n) = Data () \<longrightarrow>
        fst (analyze_cjs (E\<lparr>insert_lead_cjs := K\<rparr>) b) = Json 200 (Success False (fresh_report E n)))"
proof -
  have same_cjs: "fst (analyze_cjs (E\<lparr>insert_lead_cjs := K\<rparr>) b) = fst (analyze_cjs E b)"
    and quiet_cjs: "without_console (snd (analyze_cjs (E\<lparr>insert_lead_cjs := K\<rparr>) b)) =
      without_console (snd (analyze_cjs E b))"
    using analyze_cjs_ignores_lead_store by simp_all
  have hit_cjs: "fst (analyze_cjs E b) = Json 200 (Success True r)"
    if "passes_validation E b n" "select_report E (hashString (sha256_hex E) n) = Data (Some r)"
    using that by (rule analyze_cjs_hit)
  have miss_cjs: "fst (analyze_cjs E b) = Json 200 (Success False (fresh_report E n))"
    if "passes_validation E b n" "select_report E (hashString (sha256_hex E) n) = Data None"
      "insert_report E (fresh_report E n) = Data ()"
    using that by (rule analyze_cjs_miss)
  have same: "fst (analyze (E\<lparr>insert_lead := L\<rparr>) b) = fst (analyze E b)"
    and quiet: "without_console (snd (analyze (E\<lparr>insert_lead := L\<rparr>) b)) = without_console (snd (analyze E b))"
    using analyze_ignores_lead_store by simp_all
  have hit: "fst (analyze E b) = Json 200 (Success True r)"
    if "passes_validation E b n" "mail_can_be_built E"
      "select_report E (hashString (sha256_hex E) n) = Data (Some r)"
    using that by (simp add: analyze_after_validation [OF that(1)] on_cache_hit_response)
  have miss: "fst (analyze E b) = Json 200 (Success False (fresh_report E n))"
    if "passes_validation E b n" "mail_can_be_built E"
      "select_report E (hashString (sha256_hex E) n) = Data None"
      "insert_report E (fresh_report E n) = Data ()"
    using that by (simp add: analyze_after_validation [OF that(1)] on_cache_miss_response)
  show ?thesis
    using same quiet hit miss same_cjs quiet_cjs hit_cjs miss_cjs by simp
qed

theorem lead_failure_does_not_reach_caller_witness:
  "insert_lead (sample_env\<lparr>insert_lead := (\<lambda>l. Throws (Exn ''fetch failed'' ''TypeError: fetch failed''))\<rparr>)
     = (\<lambda>l. Throws (Exn ''fetch failed'' ''TypeError: fetch failed'')) \<and>
   passes_validation sample_env sample_body ''shop.example.org'' \<and> mail_can_be_built sample_env \<and>
   select_report sample_env (hashString (sha256_hex sample_env) ''shop.example.org'') = Data None \<and>
   insert_report sample_env (fresh_report sample_env ''shop.example.org'') = Data () \<and>
   fst (analyze (sample_env\<lparr>insert_lead := (\<lambda>l. Throws (Exn ''fetch failed'' ''TypeError: fetch failed''))\<rparr>)
          sample_body) =
     Json 200 (Success False (fresh_report sample_env ''shop.example.org'')) \<and>
   passes_validation cached_env sample_body ''shop.example.org'' \<and> mail_can_be_built cached_env \<and>
   select_report cached_env (hashString (sha256_hex cached_env) ''shop.example.org'') =
     Data (Some stored_report) \<and>
   fst (analyze (cached_env\<lparr>insert_lead := (\<lambda>l. Error ''permission denied'')\<rparr>) sample_body) =
     Json 200 (Success True stored_report) \<and>
   fst (analyze_cjs (cached_env\<lparr>insert_lead_cjs := (\<lambda>l. Error ''permission denied'')\<rparr>) sample_body) =
     Json 200 (Success True stored_report)"
proof -
  have 1: "passes_validation sample_env sample_body ''shop.example.org''"
    by code_simp
  have 2: "mail_can_be_built sample_env"
    by (simp add: mail_can_be_built_def sample_env_def)
  have 3: "select_report sample_env (hashString (sha256_hex sample_env) ''shop.example.org'') = Data None"
    by (simp add: sample_env_def)
  have 4: "insert_report sample_env (fresh_report sample_env ''shop.example.org'') = Data ()"
    by (simp add: sample_env_def)
  have 5: "passes_validation cached_env sample_body ''shop.example.org''"
    by code_simp
  have 6: "mail_can_be_built cached_env"
    by (simp add: mail_can_be_built_def cached_env_def sample_env_def)
  have 7: "select_report cached_env (hashString (sha256_hex cached_env) ''shop.example.org'') =
     Data (Some stored_report)"
    by code_simp
  have a: "fst (analyze (sample_env\<lparr>insert_lead := (\<lambda>l. Throws (Exn ''fetch failed'' ''TypeError: fetch failed''))\<rparr>)
          sample_body) = Json 200 (Success False (fresh_report sample_env ''shop.example.org''))"
    using lead_failure_does_not_reach_caller
        [where E = sample_env and L = "\<lambda>l. Throws (Exn ''fetch failed'' ''TypeError: fetch failed'')"
           and b = sample_body and n = "''shop.example.org''"] 1 2 3 4
    by blast
  have b: "fst (analyze (cached_env\<lparr>insert_lead := (\<lambda>l. Error ''permission denied'')\<rparr>) sample_body) =
     Json 200 (Success True stored_report)"
    using lead_failure_does_not_reach_caller
        [where E = cached_env and L = "\<lambda>l. Error ''permission denied''"
           and b = sample_body and n = "''shop.example.org''" and r = stored_report] 5 6 7
    by blast
  have c: "fst (analyze_cjs (cached_env\<lparr>insert_lead_cjs := (\<lambda>l. Error ''permission denied'')\<rparr>) sample_body) =
     Json 200 (Success True stored_report)"
    using lead_failure_does_not_reach_caller
        [where E = cached_env and K = "\<lambda>l. Error ''permission denied''"
           and b = sample_body and n = "''shop.example.org''" and r = stored_report] 5 7
    by blast
  show ?thesis
    using a b c 1 2 3 4 5 6 7 by simp
qed

subsection \<open>\<^verbatim>\<open>GET /r\<close>\<close>



subsection \<open>Identity normaliser\<close>

lemma has_http_scheme_https: "has_http_scheme (''https://'' @ u)"
  by (simp add: has_http_scheme_def startsWith_def toLowerCase_def to_lower_def)

lemma has_http_scheme_http: "has_http_scheme (''http://'' @ u)"
  by (simp add: has_http_scheme_def startsWith_def toLowerCase_def to_lower_def)

lemma trim_scheme_prefixed:
  assumes "trim t \<noteq> []"
  shows "trim (''https://'' @ trim t) = ''https://'' @ trim t"
    and "trim (''http://'' @ trim t) = ''http://'' @ trim t"
  using assms trim_ends [OF assms] by (simp_all add: trim_trimmed is_space_def)

lemma normalizeUrl_unfold:
  "trim (or_empty i) \<noteq> [] \<Longrightarrow>
   normalizeUrl P i =
     map_option (\<lambda>hn. if startsWith (toLowerCase hn) ''www.'' then drop 4 (toLowerCase hn)
                       else toLowerCase hn)
       (P (with_scheme (trim (or_empty i))))"
  by (simp add: normalizeUrl_def Let_def split: option.splits)

lemma to_lower_slash:
  assumes "to_lower c = CHR ''/''"
  shows "c = CHR ''/''"
proof (cases "65 \<le> (of_char c :: nat) \<and> (of_char c :: nat) \<le> 90")
  case True
  then have "to_lower c = char_of ((of_char c :: nat) + 32)"
    by (simp add: to_lower_def)
  then have "(of_char (to_lower c) :: nat) = ((of_char c :: nat) + 32) mod 256"
    by simp
  with assms True show ?thesis
    by simp
next
  case False
  with assms show ?thesis
    by (simp add: to_lower_def)
qed

lemma no_slash_no_scheme:
  assumes "CHR ''/'' \<notin> set d"
  shows "\<not> has_http_scheme d"
proof
  assume "has_http_scheme d"
  then consider "take (length ''http://'') (toLowerCase d) = ''http://''"
    | "take (length ''https://'') (toLowerCase d) = ''https://''"
    unfolding has_http_scheme_def startsWith_def by blast
  then have "\<exists>k. CHR ''/'' \<in> set (take k (toLowerCase d))"
  proof cases
    case 1
    have "CHR ''/'' \<in> set ''http://''" by simp
    with 1 show ?thesis by metis
  next
    case 2
    have "CHR ''/'' \<in> set ''https://''" by simp
    with 2 show ?thesis by metis
  qed
  then have "CHR ''/'' \<in> set (toLowerCase d)"
    by (auto dest: in_set_takeD)
  then obtain c where "c \<in> set d" "to_lower c = CHR ''/''"
    by (auto simp: toLowerCase_def)
  then show False
    using assms to_lower_slash by blast
qed

lemma no_space_trimmed:
  assumes "\<forall>c \<in> set d. \<not> is_space c"
  shows "trim d = d"
proof (cases "d = []")
  case False
  then show ?thesis
    using assms by (intro trim_trimmed) simp_all
qed simp

lemma startsWith_www_lower:
  "startsWith (''www.'' @ h) ''www.''"
  by (simp add: startsWith_def)

lemma normalizeUrl_https_prefix:
  assumes "trim t \<noteq> []" and "\<not> has_http_scheme (trim t)"
  shows "normalizeUrl P (Some (''https://'' @ trim t)) = normalizeUrl P (Some t)"
proof -
  define u where "u = ''https://'' @ trim t"
  have u: "trim u = u" "has_http_scheme u" "u \<noteq> []"
    unfolding u_def
    by (rule trim_scheme_prefixed(1) [OF assms(1)], rule has_http_scheme_https, simp)
  have "with_scheme (trim t) = u"
    using assms(2) by (simp add: with_scheme_def u_def)
  moreover have "with_scheme u = u"
    using u by (simp add: with_scheme_def)
  ultimately have "normalizeUrl P (Some u) = normalizeUrl P (Some t)"
    using u assms(1) by (simp add: normalizeUrl_unfold)
  then show ?thesis
    by (simp only: u_def)
qed

lemma normalizeUrl_http_prefix:
  assumes "trim t \<noteq> []" and "\<not> has_http_scheme (trim t)"
    and "P (''http://'' @ trim t) = P (''https://'' @ trim t)"
  shows "normalizeUrl P (Some (''http://'' @ trim t)) = normalizeUrl P (Some t)"
proof -
  define u where "u = ''http://'' @ trim t"
  define v where "v = ''https://'' @ trim t"
  have u: "trim u = u" "has_http_scheme u" "u \<noteq> []"
    unfolding u_def
    by (rule trim_scheme_prefixed(2) [OF assms(1)], rule has_http_scheme_http, simp)
  have "with_scheme (trim t) = v"
    using assms(2) by (simp add: with_scheme_def v_def)
  moreover have "with_scheme u = u"
    using u by (simp add: with_scheme_def)
  moreover have "P u = P v"
    using assms(3) by (simp only: u_def v_def)
  ultimately have "normalizeUrl P (Some u) = normalizeUrl P (Some t)"
    using u assms(1) by (simp add: normalizeUrl_unfold)
  then show ?thesis
    by (simp only: u_def)
qed

text \<open>
  C3, as claimed, makes any two inputs that differ by a leading \<^verbatim>\<open>www.\<close> prefix yield
  the same domain. The normaliser removes one such label only: the inputs
  \<^verbatim>\<open>www.www.shop.example.org\<close> and \<^verbatim>\<open>www.shop.example.org\<close> get different domains.
\<close>

theorem double_www_pair_counterexample:
  "''www.www.shop.example.org'' = ''www.'' @ ''www.shop.example.org'' \<and>
   normalizeUrl plain_hostname (Some ''www.www.shop.example.org'') = Some ''www.shop.example.org'' \<and>
   normalizeUrl plain_hostname (Some ''www.shop.example.org'') = Some ''shop.example.org'' \<and>
   normalizeUrl plain_hostname (Some ''www.www.shop.example.org'') \<noteq>
   normalizeUrl plain_hostname (Some ''www.shop.example.org'')"
  by code_simp

text \<open>
  C3, amended. For every URL parser \<open>P\<close>: an input without scheme and the same input
  behind \<^verbatim>\<open>https://\<close> get the same result, and so does the input behind \<^verbatim>\<open>http://\<close>
  when the parser reads the same host under both schemes; two inputs whose parsed hosts
  differ only in letter case get the same domain; two inputs whose parsed hosts are
  \<open>www.h\<close> and \<open>h\<close>, where \<open>h\<close> does not itself begin with \<^verbatim>\<open>www.\<close>, both get the domain
  \<open>h\<close> in lower case; equal domains have equal fingerprints; a blank input and an input
  the parser rejects yield the failure value.
\<close>

theorem normalizeUrl_collapses_scheme_case_and_one_www:
  "(trim t \<noteq> [] \<and> \<not> has_http_scheme (trim t) \<longrightarrow>
      normalizeUrl P (Some (''https://'' @ trim t)) = normalizeUrl P (Some t))
   \<and> (trim t \<noteq> [] \<and> \<not> has_http_scheme (trim t) \<and> P (''http://'' @ trim t) = P (''https://'' @ trim t) \<longrightarrow>
      normalizeUrl P (Some (''http://'' @ trim t)) = normalizeUrl P (Some t))
   \<and> (trim a \<noteq> [] \<and> trim b \<noteq> [] \<and>
       P (with_scheme (trim a)) = Some ha \<and> P (with_scheme (trim b)) = Some hb \<and>
       toLowerCase ha = toLowerCase hb \<longrightarrow>
      normalizeUrl P (Some a) = normalizeUrl P (Some b))
   \<and> (trim a \<noteq> [] \<and> trim b \<noteq> [] \<and>
       P (with_scheme (trim a)) = Some ha \<and> P (with_scheme (trim b)) = Some hb \<and>
       toLowerCase ha = ''www.'' @ toLowerCase hb \<and> \<not> startsWith (toLowerCase hb) ''www.'' \<longrightarrow>
      normalizeUrl P (Some a) = Some (toLowerCase hb) \<and> normalizeUrl P (Some b) = Some (toLowerCase hb))
   \<and> (normalizeUrl P x = normalizeUrl P y \<longrightarrow>
      map_option (hashString H) (normalizeUrl P x) = map_option (hashString H) (normalizeUrl P y))
   \<and> (trim (or_empty i) = [] \<longrightarrow> normalizeUrl P i = None)
   \<and> (P (with_scheme (trim (or_empty i))) = None \<longrightarrow> normalizeUrl P i = None)"
proof -
  have 1: "normalizeUrl P (Some (''https://'' @ trim t)) = normalizeUrl P (Some t)"
    if "trim t \<noteq> []" "\<not> has_http_scheme (trim t)"
    using that by (rule normalizeUrl_https_prefix)
  have 2: "normalizeUrl P (Some (''http://'' @ trim t)) = normalizeUrl P (Some t)"
    if "trim t \<noteq> []" "\<not> has_http_scheme (trim t)" "P (''http://'' @ trim t) = P (''https://'' @ trim t)"
    using that by (rule normalizeUrl_http_prefix)
  have 3: "normalizeUrl P (Some a) = normalizeUrl P (Some b)"
    if "trim a \<noteq> []" "trim b \<noteq> []" "P (with_scheme (trim a)) = Some ha"
      "P (with_scheme (trim b)) = Some hb" "toLowerCase ha = toLowerCase hb"
    using that by (simp add: normalizeUrl_unfold)
  have 4: "normalizeUrl P (Some a) = Some (toLowerCase hb) \<and> normalizeUrl P (Some b) = Some (toLowerCase hb)"
    if "trim a \<noteq> []" "trim b \<noteq> []" "P (with_scheme (trim a)) = Some ha"
      "P (with_scheme (trim b)) = Some hb" "toLowerCase ha = ''www.'' @ toLowerCase hb"
      "\<not> startsWith (toLowerCase hb) ''www.''"
  proof -
    have "startsWith (toLowerCase ha) ''www.''" "drop 4 (toLowerCase ha) = toLowerCase hb"
      unfolding that(5) by (rule startsWith_www_lower, simp)
    then show ?thesis
      using that(1-4,6) by (simp add: normalizeUrl_unfold)
  qed
  have 5: "normalizeUrl P i = None" if "trim (or_empty i) = []"
    using that by (simp add: normalizeUrl_def)
  have 6: "normalizeUrl P i = None" if "P (with_scheme (trim (or_empty i))) = None"
    using that by (simp add: normalizeUrl_def Let_def)
  show ?thesis
    using 1 2 3 4 5 6 by simp
qed

theorem normalizeUrl_collapses_scheme_case_and_one_www_witness:
  "trim ''Example.com/about'' \<noteq> [] \<and> \<not> has_http_scheme (trim ''Example.com/about'') \<and>
   plain_hostname (''http://'' @ trim ''Example.com/about'') =
     plain_hostname (''https://'' @ trim ''Example.com/about'') \<and>
   normalizeUrl plain_hostname (Some (''https://'' @ trim ''Example.com/about'')) =
     normalizeUrl plain_hostname (Some ''Example.com/about'') \<and>
   normalizeUrl plain_hostname (Some (''http://'' @ trim ''Example.com/about'')) =
     normalizeUrl plain_hostname (Some ''Example.com/about'') \<and>
   plain_hostname (with_scheme (trim ''WWW.Example.COM'')) = Some ''www.example.com'' \<and>
   plain_hostname (with_scheme (trim ''http://example.com'')) = Some ''example.com'' \<and>
   toLowerCase ''www.example.com'' = ''www.'' @ toLowerCase ''example.com'' \<and>
   \<not> startsWith (toLowerCase ''example.com'') ''www.'' \<and>
   normalizeUrl plain_hostname (Some ''WWW.Example.COM'') = Some ''example.com'' \<and>
   normalizeUrl plain_hostname (Some ''http://example.com'') = Some ''example.com'' \<and>
   map_option (hashString (sha256_hex sample_env)) (normalizeUrl plain_hostname (Some ''WWW.Example.COM'')) =
     map_option (hashString (sha256_hex sample_env)) (normalizeUrl plain_hostname (Some ''http://example.com'')) \<and>
   trim (or_empty (Some ''   '')) = [] \<and> normalizeUrl plain_hostname (Some ''   '') = None \<and>
   plain_hostname (with_scheme (trim (or_empty (Some ''exa mple'')))) = None \<and>
   normalizeUrl plain_hostname (Some ''exa mple'') = None"
proof -
  have 1: "trim ''Example.com/about'' \<noteq> []" "\<not> has_http_scheme (trim ''Example.com/about'')"
      "plain_hostname (''http://'' @ trim ''Example.com/about'') =
       plain_hostname (''https://'' @ trim ''Example.com/about'')"
    by code_simp+
  have 2: "trim ''WWW.Example.COM'' \<noteq> []" "trim ''http://example.com'' \<noteq> []"
      "plain_hostname (with_scheme (trim ''WWW.Example.COM'')) = Some ''www.example.com''"
      "plain_hostname (with_scheme (trim ''http://example.com'')) = Some ''example.com''"
      "toLowerCase ''www.example.com'' = ''www.'' @ toLowerCase ''example.com''"
      "\<not> startsWith (toLowerCase ''example.com'') ''www.''"
    by code_simp+
  have 3: "trim (or_empty (Some ''   '')) = []"
      "plain_hostname (with_scheme (trim (or_empty (Some ''exa mple'')))) = None"
    by code_simp+
  have low: "toLowerCase ''example.com'' = ''example.com''"
    by code_simp
  note T1 = normalizeUrl_collapses_scheme_case_and_one_www
      [where P = plain_hostname and t = "''Example.com/about''" and a = "''WWW.Example.COM''"
         and b = "''http://example.com''" and ha = "''www.example.com''" and hb = "''example.com''"
         and x = "Some ''WWW.Example.COM''" and y = "Some ''http://example.com''"
         and H = "sha256_hex sample_env" and i = "Some ''   ''"]
  note T2 = normalizeUrl_collapses_scheme_case_and_one_www
      [where P = plain_hostname and i = "Some ''exa mple''"]
  have a: "normalizeUrl plain_hostname (Some (''https://'' @ trim ''Example.com/about'')) =
     normalizeUrl plain_hostname (Some ''Example.com/about'')"
    using T1 1 by blast
  have b: "normalizeUrl plain_hostname (Some (''http://'' @ trim ''Example.com/about'')) =
     normalizeUrl plain_hostname (Some ''Example.com/about'')"
    using T1 1 by blast
  have c: "normalizeUrl plain_hostname (Some ''WWW.Example.COM'') = Some (toLowerCase ''example.com'')"
      "normalizeUrl plain_hostname (Some ''http://example.com'') = Some (toLowerCase ''example.com'')"
    using T1 2 by blast+
  have d: "normalizeUrl plain_hostname (Some ''   '') = None"
    using T1 3 by blast
  have e: "normalizeUrl plain_hostname (Some ''exa mple'') = None"
    using T2 3 by blast
  show ?thesis
    using a b c d e 1 2 3 by (simp only: low simp_thms option.map)
qed

text \<open>
  C10, as claimed, makes every returned domain a fixed point. A returned domain can
  still begin with \<^verbatim>\<open>www.\<close>, and normalising it again removes that label.
\<close>

theorem remaining_www_counterexample:
  "normalizeUrl plain_hostname (Some ''https://www.www.example.com/'') = Some ''www.example.com'' \<and>
   startsWith ''www.example.com'' ''www.'' \<and>
   normalizeUrl plain_hostname (Some ''www.example.com'') = Some ''example.com'' \<and>
   normalizeUrl plain_hostname (Some ''www.example.com'') \<noteq> Some ''www.example.com''"
  by code_simp

text \<open>
  C10, amended. A domain \<open>d\<close> returned by the normaliser contains no upper-case letter;
  if moreover \<open>d\<close> is not empty, does not begin with \<^verbatim>\<open>www.\<close>, contains no white space
  and no slash, and the URL parser reads \<^verbatim>\<open>https://d\<close> back as the host \<open>d\<close>, then
  normalising \<open>d\<close> returns \<open>d\<close>.
\<close>

theorem normalized_domain_is_fixed_unless_www_remains:
  assumes "normalizeUrl P i = Some d"
  shows "toLowerCase d = d
     \<and> (d \<noteq> [] \<and> \<not> startsWith d ''www.'' \<and> (\<forall>c \<in> set d. \<not> is_space c \<and> c \<noteq> CHR ''/'') \<and>
        P (''https://'' @ d) = Some d \<longrightarrow> normalizeUrl P (Some d) = Some d)"
proof -
  have low: "toLowerCase d = d"
    using assms
    by (auto simp: normalizeUrl_def Let_def toLowerCase_def drop_map split: if_splits option.splits)
  have "normalizeUrl P (Some d) = Some d"
    if "d \<noteq> []" "\<not> startsWith d ''www.''" "\<forall>c \<in> set d. \<not> is_space c \<and> c \<noteq> CHR ''/''"
      "P (''https://'' @ d) = Some d"
  proof -
    have "trim d = d" using that(3) by (simp add: no_space_trimmed)
    moreover have "\<not> has_http_scheme d" using that(3) by (intro no_slash_no_scheme) auto
    moreover have "P (with_scheme d) = Some d"
      using that(4) \<open>\<not> has_http_scheme d\<close> by (simp add: with_scheme_def)
    ultimately show ?thesis
      using that(1,2) low by (simp add: normalizeUrl_unfold)
  qed
  with low show ?thesis by simp
qed

theorem normalized_domain_is_fixed_unless_www_remains_witness:
  "normalizeUrl plain_hostname (Some ''  HTTP://WWW.Example.com/pricing '') = Some ''example.com'' \<and>
   ''example.com'' \<noteq> [] \<and> \<not> startsWith ''example.com'' ''www.'' \<and>
   list_all (\<lambda>c. \<not> is_space c \<and> c \<noteq> CHR ''/'') ''example.com'' \<and>
   plain_hostname (''https://'' @ ''example.com'') = Some ''example.com'' \<and>
   toLowerCase ''example.com'' = ''example.com'' \<and>
   normalizeUrl plain_hostname (Some ''example.com'') = Some ''example.com''"
proof -
  have 1: "normalizeUrl plain_hostname (Some ''  HTTP://WWW.Example.com/pricing '') = Some ''example.com''"
    by code_simp
  have 2: "''example.com'' \<noteq> []" "\<not> startsWith ''example.com'' ''www.''"
      "list_all (\<lambda>c. \<not> is_space c \<and> c \<noteq> CHR ''/'') ''example.com''"
      "plain_hostname (''https://'' @ ''example.com'') = Some ''example.com''"
    by code_simp+
  show ?thesis
    using normalized_domain_is_fixed_unless_www_remains [OF 1] 1 2
    unfolding list_all_iff by blast
qed

end
